theory Spec2Isabelle
  imports Main "HOL-Library.Word"
begin

section \<open>Values exchanged with the backend\<close>

text \<open>
  The frontend talks to the backend through an Axios instance. A call either throws (a
  network failure or a non-2xx answer) or returns a response whose body is the envelope
  \<^verbatim>\<open>{ success, message?, data? }\<close>. Optional properties are options: \<open>None\<close> is
  JavaScript's \<^verbatim>\<open>undefined\<close>. Values the hooks only copy are of an arbitrary type \<open>'v\<close>.

  The strings the hooks compare or produce themselves (statuses, messages, identifiers,
  section names) are written as \<open>string\<close>. Text typed by the user is a JavaScript string
  as \<^verbatim>\<open>trim\<close> sees it, a sequence of UTF-16 code units: \<open>utext\<close>.
\<close>

type_synonym utext = "16 word list"

definition truthy :: "'a list option \<Rightarrow> bool" where
  "truthy s = (case s of None \<Rightarrow> False | Some t \<Rightarrow> t \<noteq> [])"

text \<open>
  \<^verbatim>\<open>s || d\<close> for an optional string \<open>s\<close> and a string \<open>d\<close>: \<open>d\<close> when \<open>s\<close> is undefined
  or empty.
\<close>

definition or_else :: "'a list option \<Rightarrow> 'a list \<Rightarrow> 'a list" where
  "or_else s d = (case s of None \<Rightarrow> d | Some t \<Rightarrow> if t = [] then d else t)"

record 'v article_obj =
  ao_headline :: "string option"
  ao_project_details :: "string option"
  ao_participants :: "string option"
  ao_lots :: "string option"
  ao_organizations :: "string option"
  ao_rest :: 'v

text \<open>
  \<^verbatim>\<open>responseData\<close>: the \<^verbatim>\<open>data\<close> of a submission response and the \<^verbatim>\<open>result\<close> of a
  finished task have the same shape for the hooks, which read these properties of it.
\<close>

record 'v response_data =
  rd_async :: bool
  rd_task_id :: "string option"
  rd_success :: bool
  rd_error :: "string option"
  rd_article_data :: "'v option"
  rd_article :: "'v article_obj option"
  rd_article_id :: "string option"
  rd_request_id :: "'v option"
  rd_validation :: "'v option"
  rd_generation_time :: "'v option"
  rd_from_cache :: "'v option"
  rd_feedback_applied :: bool

text \<open>\<^verbatim>\<open>taskData\<close>: the \<^verbatim>\<open>data\<close> of a status response.\<close>

record 'v task_data =
  td_status :: string
  td_result :: "'v response_data option"
  td_error :: "string option"

record 'd envelope =
  env_success :: bool
  env_message :: "string option"
  env_data :: "'d option"

text \<open>
  The body of an error answer, as \<^verbatim>\<open>err.response?.data\<close> reads it. Its \<^verbatim>\<open>data\<close>, when
  it is an object, maps field names to lists of messages; \<open>ed_data\<close> holds its entries in
  the order in which \<^verbatim>\<open>Object.values\<close> enumerates them.
\<close>

record err_data =
  ed_message :: "string option"
  ed_detail :: "string option"
  ed_error :: "string option"
  ed_data :: "(string \<times> string list) list option"

text \<open>
  What a \<^verbatim>\<open>catch\<close> receives: the error Axios threw (\<^verbatim>\<open>err.message\<close> and
  \<^verbatim>\<open>err.response?.data\<close>), the TypeError of reading a property of a missing object, or
  an error made with \<^verbatim>\<open>new Error(msg)\<close>.
\<close>

datatype js_err =
    Axios_error "string option" "err_data option"
  | Type_error
  | Error_msg string

text \<open>
  The message of such a TypeError is the engine's own. The constant is how V8 begins
  it; the message goes on with the name of the property that was read. No branch of the
  hooks looks into the text, it is only shown.
\<close>

definition type_error_message :: string where
  "type_error_message = ''Cannot read properties of undefined''"

fun err_message :: "js_err \<Rightarrow> string option" where
  "err_message (Axios_error m d) = m"
| "err_message Type_error = Some type_error_message"
| "err_message (Error_msg m) = Some m"

fun err_response_data :: "js_err \<Rightarrow> err_data option" where
  "err_response_data (Axios_error m d) = d"
| "err_response_data Type_error = None"
| "err_response_data (Error_msg m) = None"

datatype 'd reply = Threw js_err | Responded "'d envelope"

section \<open>Requests, events and the state of a run\<close>

record request_data =
  rq_input_type :: string
  rq_input_value :: utext
  rq_instruction :: "utext option"
  rq_force_refresh :: "bool option"
  rq_async :: "bool option"

record gen_payload =
  gp_input_type :: string
  gp_input_value :: utext
  gp_instruction :: utext
  gp_force_refresh :: bool
  gp_async :: bool

record fb_payload =
  fp_article_id :: "string option"
  fp_feedback :: "string \<times> utext"
  fp_async_processing :: bool

datatype request =
    Post_generate gen_payload
  | Post_feedback fb_payload
  | Get_status string

text \<open>
  Everything a hook does that is visible outside it, in the order it happens: a network
  call, \<^verbatim>\<open>setTimeout(poll, interval)\<close>, a state setter of the hook or of the component
  that calls it, the component's \<^verbatim>\<open>onFeedbackApplied\<close> callback, and the settling of the
  promise the hook's operation returned (with the value it resolves to).
\<close>

datatype 'a event =
    Call request
  | Timer nat
  | Set_loading bool
  | Set_error "string option"
  | Set_article "'a option"
  | Set_submitted bool
  | Set_success bool
  | Feedback_applied 'a
  | Returned "'a option"

text \<open>
  One poll run: \<^verbatim>\<open>let attempts = 0\<close> of the source, the number of status replies the
  run has received (the index of the reply the outstanding query gets), and the events so
  far.
\<close>

record 'a run_state =
  attempts :: nat
  answered :: nat
  trace :: "'a event list"

definition emit :: "'a event list \<Rightarrow> 'a run_state \<Rightarrow> 'a run_state" where
  "emit evs st = st\<lparr>trace := trace st @ evs\<rparr>"

text \<open>How one execution of the \<^verbatim>\<open>poll\<close> closure ends.\<close>

datatype 'v poll_exit =
    Reschedule
  | Deliver "'v response_data"
  | Fail string
  | Rethrow js_err

text \<open>
  The part of \<^verbatim>\<open>poll\<close> before its \<^verbatim>\<open>await\<close>: the status query is issued
  (\<^verbatim>\<open>api.get(`tasks/${taskId}/status/`)\<close>).
\<close>

definition poll_issue :: "string \<Rightarrow> 'a run_state \<Rightarrow> 'a run_state" where
  "poll_issue taskId st = emit [Call (Get_status taskId)] st"

definition received :: "'a run_state \<Rightarrow> 'a run_state" where
  "received st = st\<lparr>answered := Suc (answered st)\<rparr>"

section \<open>The generation hook (useArticleRequest)\<close>

record 'v gen_article =
  ga_data :: 'v
  ga_article_id :: "string option"
  ga_request_id :: "'v option"
  ga_validation :: "'v option"
  ga_generation_time :: "'v option"
  ga_from_cache :: "'v option"

definition handleArticleResponse ::
  "'v response_data \<Rightarrow> 'v gen_article event list" where
  "handleArticleResponse responseData =
     (case rd_article_data responseData of
        Some d \<Rightarrow>
          [Set_article (Some \<lparr>ga_data = d,
             ga_article_id = rd_article_id responseData,
             ga_request_id = rd_request_id responseData,
             ga_validation = rd_validation responseData,
             ga_generation_time = rd_generation_time responseData,
             ga_from_cache = rd_from_cache responseData\<rparr>),
           Set_loading False]
      | None \<Rightarrow>
          [Set_error (Some ''Invalid article data received''), Set_loading False])"

text \<open>
  \<^verbatim>\<open>attempts++; if (attempts < maxAttempts) setTimeout(poll, interval); else { setError(msg);
  setLoading(false); }\<close>: the shape of the three retrying branches of \<^verbatim>\<open>pollTaskStatus\<close>.
\<close>

definition gen_retry ::
  "nat \<Rightarrow> nat \<Rightarrow> string \<Rightarrow> 'a run_state \<Rightarrow> 'a run_state \<times> 'v poll_exit" where
  "gen_retry maxAttempts interval msg st =
     (let st1 = st\<lparr>attempts := Suc (attempts st)\<rparr> in
      if attempts st1 < maxAttempts then (emit [Timer interval] st1, Reschedule)
      else (emit [Set_error (Some msg), Set_loading False] st1, Fail msg))"

definition gen_fail :: "string \<Rightarrow> 'a run_state \<Rightarrow> 'a run_state \<times> 'v poll_exit" where
  "gen_fail msg st = (emit [Set_error (Some msg), Set_loading False] st, Fail msg)"

definition gen_timeout_msg :: string where
  "gen_timeout_msg =
     ''Task timed out - please try again with a shorter URL or simpler content''"

definition gen_unknown_msg :: string where
  "gen_unknown_msg = ''Unknown task status - please try again''"

definition gen_unreachable_msg :: string where
  "gen_unreachable_msg = ''Failed to check task status - please try again''"

text \<open>
  The part of \<^verbatim>\<open>poll\<close> after its \<^verbatim>\<open>await\<close> (src/unnamed/part_000, lines 87 to 152), run on
  the reply to the outstanding query. A reply with \<^verbatim>\<open>success\<close> and no \<^verbatim>\<open>data\<close> makes
  \<^verbatim>\<open>taskData.status\<close> throw, which the \<^verbatim>\<open>catch\<close> handles like a thrown request.
\<close>

definition gen_on_reply ::
  "'v task_data reply \<Rightarrow> nat \<Rightarrow> nat \<Rightarrow> 'v gen_article run_state \<Rightarrow>
     'v gen_article run_state \<times> 'v poll_exit" where
  "gen_on_reply r maxAttempts interval st0 =
     (let st = received st0 in
      case r of
        Threw err \<Rightarrow> gen_retry maxAttempts interval gen_unreachable_msg st
      | Responded env \<Rightarrow>
          if env_success env then
            (case env_data env of
               None \<Rightarrow> gen_retry maxAttempts interval gen_unreachable_msg st
             | Some taskData \<Rightarrow>
                 if td_status taskData = ''completed'' then
                   (case td_result taskData of
                      None \<Rightarrow> gen_fail ''Task completed with errors'' st
                    | Some res \<Rightarrow>
                        if rd_success res
                        then (emit (handleArticleResponse res) st, Deliver res)
                        else gen_fail (or_else (rd_error res) ''Task completed with errors'') st)
                 else if td_status taskData = ''failed'' then
                   gen_fail (or_else (td_error taskData) ''Task execution failed'') st
                 else if td_status taskData = ''processing'' \<or> td_status taskData = ''pending''
                 then gen_retry maxAttempts interval gen_timeout_msg st
                 else gen_retry maxAttempts interval gen_unknown_msg st)
          else gen_fail ''Failed to check task status'' st)"

text \<open>
  The run from the moment a query is outstanding: each element is the state and exit of
  one execution of \<^verbatim>\<open>poll\<close>; after \<^verbatim>\<open>setTimeout\<close> the closure runs again and issues
  the next query. \<open>srv k\<close> is the backend's reply to the \<open>k\<close>-th status query.
\<close>

function gen_cycles ::
  "(nat \<Rightarrow> 'v task_data reply) \<Rightarrow> string \<Rightarrow> nat \<Rightarrow> nat \<Rightarrow> 'v gen_article run_state \<Rightarrow>
     ('v gen_article run_state \<times> 'v poll_exit) list" where
  "gen_cycles srv taskId maxAttempts interval st =
     (case gen_on_reply (srv (answered st)) maxAttempts interval st of
        (st', ex) \<Rightarrow>
          (st', ex) #
          (if ex = Reschedule
           then gen_cycles srv taskId maxAttempts interval (poll_issue taskId st')
           else []))"
  by pat_completeness auto

lemma gen_retry_reschedule:
  "gen_retry maxAttempts interval msg st = (st', Reschedule) \<Longrightarrow>
     attempts st' = Suc (attempts st) \<and> attempts st' < maxAttempts"
  by (auto simp: gen_retry_def emit_def Let_def split: if_splits)

lemma gen_on_reply_reschedule:
  "gen_on_reply r maxAttempts interval st = (st', Reschedule) \<Longrightarrow>
     attempts st' = Suc (attempts st) \<and> attempts st' < maxAttempts"
  by (auto simp: gen_on_reply_def gen_fail_def received_def Let_def
      dest!: gen_retry_reschedule
      split: reply.splits option.splits if_splits)

lemma attempts_poll_issue [simp]: "attempts (poll_issue taskId st) = attempts st"
  by (simp add: poll_issue_def emit_def)

lemma gen_on_reply_decreases:
  "(st', Reschedule) = gen_on_reply r maxAttempts interval st \<Longrightarrow>
     maxAttempts - attempts st' < maxAttempts - attempts st"
  using gen_on_reply_reschedule [of r maxAttempts interval st st'] by auto

termination gen_cycles
  apply (relation "measure (\<lambda>(srv, taskId, maxAttempts, interval, st). maxAttempts - attempts st)")
   apply simp
  apply (simp add: gen_on_reply_decreases)
  done

definition gen_poll ::
  "(nat \<Rightarrow> 'v task_data reply) \<Rightarrow> string \<Rightarrow> nat \<Rightarrow> nat \<Rightarrow> 'v gen_article run_state \<Rightarrow>
     'v gen_article run_state \<times> 'v poll_exit" where
  "gen_poll srv taskId maxAttempts interval st =
     last (gen_cycles srv taskId maxAttempts interval st)"

text \<open>
  \<^verbatim>\<open>pollTaskStatus\<close> (src/unnamed/part_000, lines 70 to 157) sets \<^verbatim>\<open>attempts = 0\<close> and
  calls \<^verbatim>\<open>poll()\<close> without awaiting it: the closure runs up to its first \<^verbatim>\<open>await\<close>, the
  query is out, and \<^verbatim>\<open>pollTaskStatus\<close> returns. The rest of the run happens when the
  replies come in. \<^verbatim>\<open>pollFeedbackTask\<close> starts its run the same way, inside the promise
  it returns.
\<close>

definition poll_start :: "string \<Rightarrow> 'a event list \<Rightarrow> 'a run_state" where
  "poll_start taskId tr = poll_issue taskId \<lparr>attempts = 0, answered = 0, trace = tr\<rparr>"

definition gen_maxAttempts :: nat where "gen_maxAttempts = 60"

definition gen_interval :: nat where "gen_interval = 3000"

definition gen_payload_of :: "request_data \<Rightarrow> gen_payload" where
  "gen_payload_of requestData =
     \<lparr>gp_input_type = rq_input_type requestData,
      gp_input_value = rq_input_value requestData,
      gp_instruction = or_else (rq_instruction requestData) [],
      gp_force_refresh = (case rq_force_refresh requestData of None \<Rightarrow> False | Some b \<Rightarrow> b),
      gp_async = (rq_async requestData \<noteq> Some False)\<rparr>"

text \<open>\<^verbatim>\<open>responseData.async && responseData.task_id\<close>: the task to poll, if any.\<close>

definition deferred :: "'v response_data \<Rightarrow> string option" where
  "deferred responseData =
     (if rd_async responseData \<and> truthy (rd_task_id responseData)
      then rd_task_id responseData else None)"

definition gen_error_message :: "js_err \<Rightarrow> string" where
  "gen_error_message err =
     or_else (case err_response_data err of None \<Rightarrow> None | Some d \<Rightarrow> ed_message d)
       (or_else (case err_response_data err of None \<Rightarrow> None | Some d \<Rightarrow> ed_detail d)
          (or_else (err_message err) ''Failed to generate article''))"

text \<open>
  \<^verbatim>\<open>requestArticle\<close> (src/unnamed/part_000, lines 18 to 65) up to its first \<^verbatim>\<open>await\<close>, and
  from the reply of the submission on. In the deferred branch the awaited
  \<^verbatim>\<open>pollTaskStatus\<close> returns once the first status query is out, \<^verbatim>\<open>requestArticle\<close> runs
  to its end and its promise settles; the replies of the status endpoint arrive in later
  turns of the event loop.
\<close>

definition requestArticle_begin :: "request_data \<Rightarrow> 'v gen_article event list" where
  "requestArticle_begin requestData =
     [Set_loading True, Set_error None, Set_article None,
      Call (Post_generate (gen_payload_of requestData))]"

definition gen_caught :: "js_err \<Rightarrow> 'v gen_article event list" where
  "gen_caught err =
     [Set_error (Some (gen_error_message err)), Set_loading False, Returned None]"

definition requestArticle_rest ::
  "'v response_data reply \<Rightarrow> (nat \<Rightarrow> 'v task_data reply) \<Rightarrow> 'v gen_article event list" where
  "requestArticle_rest r srv =
     (case r of
        Threw err \<Rightarrow> gen_caught err
      | Responded env \<Rightarrow>
          if env_success env then
            (case env_data env of
               None \<Rightarrow> gen_caught Type_error
             | Some responseData \<Rightarrow>
                 (case deferred responseData of
                    Some taskId \<Rightarrow>
                      trace (fst (gen_poll srv taskId gen_maxAttempts gen_interval
                        (emit [Returned None] (poll_start taskId []))))
                  | None \<Rightarrow> handleArticleResponse responseData @ [Returned None]))
          else
            [Set_error (Some (or_else (env_message env) ''Article generation failed'')),
             Set_loading False, Returned None])"

definition requestArticle ::
  "'v response_data reply \<Rightarrow> (nat \<Rightarrow> 'v task_data reply) \<Rightarrow> request_data \<Rightarrow>
     'v gen_article event list" where
  "requestArticle r srv requestData = requestArticle_begin requestData @ requestArticle_rest r srv"

text \<open>
  \<^verbatim>\<open>String.prototype.trim\<close> removes the leading and trailing code units that are white
  space or line terminators of ECMAScript: tab, line feed, vertical tab, form feed,
  carriage return, space, no-break space (U+00A0), the other space separators of Unicode
  (U+1680, U+2000 to U+200A, U+202F, U+205F, U+3000), the line and paragraph separators
  (U+2028, U+2029) and the byte order mark (U+FEFF). All of them are single code units.
\<close>

definition is_space :: "16 word \<Rightarrow> bool" where
  "is_space u =
     (u \<in> set [0x0009, 0x000A, 0x000B, 0x000C, 0x000D, 0x0020, 0x00A0, 0x1680,
        0x2000, 0x2001, 0x2002, 0x2003, 0x2004, 0x2005, 0x2006, 0x2007, 0x2008, 0x2009,
        0x200A, 0x2028, 0x2029, 0x202F, 0x205F, 0x3000, 0xFEFF])"

definition trim :: "utext \<Rightarrow> utext" where
  "trim s = rev (dropWhile is_space (rev (dropWhile is_space s)))"

text \<open>
  \<^verbatim>\<open>handleSubmit\<close> of the request form (ArticleRequestForm.jsx, lines 18 to 38). It does
  not await \<^verbatim>\<open>requestArticle\<close>: \<^verbatim>\<open>setSubmitted(true)\<close> runs as soon as the submission is out.
\<close>

definition handleSubmit ::
  "utext \<Rightarrow> utext \<Rightarrow> 'v response_data reply \<Rightarrow> (nat \<Rightarrow> 'v task_data reply) \<Rightarrow>
     'v gen_article event list" where
  "handleSubmit rawContent instruction r srv =
     (if trim rawContent = [] then [Set_error (Some ''Please enter a valid URL'')]
      else
        [Set_error None] @
        requestArticle_begin
          \<lparr>rq_input_type = ''url'', rq_input_value = trim rawContent,
           rq_instruction = Some (trim instruction), rq_force_refresh = Some False,
           rq_async = Some True\<rparr> @
        [Set_submitted True] @
        requestArticle_rest r srv)"

section \<open>The feedback hook (useFeedback)\<close>

datatype 'v fb_article =
    From_article "'v article_obj" "string option" bool
  | From_article_data 'v "string option" bool

text \<open>
  \<^verbatim>\<open>handleFeedbackResponse\<close> (useFeedback.js, lines 160 to 187): the value it returns and
  the events it causes. \<^verbatim>\<open>responseData.feedback_applied || true\<close> is written out.
\<close>

definition handleFeedbackResponse ::
  "'v response_data \<Rightarrow> 'v fb_article option \<times> 'v fb_article event list" where
  "handleFeedbackResponse responseData =
     (case (if truthy (rd_article_id responseData) then rd_article responseData else None) of
        Some a \<Rightarrow>
          (Some (From_article
             (a\<lparr>ao_headline := Some (or_else (ao_headline a) []),
                ao_project_details := Some (or_else (ao_project_details a) []),
                ao_participants := Some (or_else (ao_participants a) []),
                ao_lots := Some (or_else (ao_lots a) []),
                ao_organizations := Some (or_else (ao_organizations a) [])\<rparr>)
             (rd_article_id responseData)
             (rd_feedback_applied responseData \<or> True)), [])
      | None \<Rightarrow>
          (case rd_article_data responseData of
             Some d \<Rightarrow>
               (Some (From_article_data d (rd_article_id responseData)
                  (rd_feedback_applied responseData \<or> True)), [])
           | None \<Rightarrow>
               (None, [Set_error (Some ''Invalid article data received from server'')])))"

text \<open>\<^verbatim>\<open>setError(msg); reject(new Error(msg))\<close>.\<close>

definition fb_fail :: "string \<Rightarrow> 'a run_state \<Rightarrow> 'a run_state \<times> 'v poll_exit" where
  "fb_fail msg st = (emit [Set_error (Some msg)] st, Fail msg)"

definition fb_timeout_msg :: string where
  "fb_timeout_msg = ''Feedback task timed out - please try again''"

text \<open>
  The part of \<^verbatim>\<open>poll\<close> of \<^verbatim>\<open>pollFeedbackTask\<close> after its \<^verbatim>\<open>await\<close> (useFeedback.js,
  lines 105 to 148). Its \<^verbatim>\<open>catch\<close> rejects with the error it caught.
\<close>

definition fb_caught :: "js_err \<Rightarrow> 'a run_state \<Rightarrow> 'a run_state \<times> 'v poll_exit" where
  "fb_caught err st =
     (emit [Set_error (Some (or_else
        (case err_response_data err of None \<Rightarrow> None | Some d \<Rightarrow> ed_message d)
        ''Failed to check task status''))] st,
      Rethrow err)"

definition fb_on_reply ::
  "'v task_data reply \<Rightarrow> nat \<Rightarrow> nat \<Rightarrow> 'v fb_article run_state \<Rightarrow>
     'v fb_article run_state \<times> 'v poll_exit" where
  "fb_on_reply r maxAttempts interval st0 =
     (let st = received st0 in
      case r of
        Threw err \<Rightarrow> fb_caught err st
      | Responded env \<Rightarrow>
          if env_success env then
            (case env_data env of
               None \<Rightarrow> fb_caught Type_error st
             | Some taskData \<Rightarrow>
                 if td_status taskData = ''completed'' then
                   (case td_result taskData of
                      None \<Rightarrow> fb_fail ''Task completed with errors'' st
                    | Some res \<Rightarrow>
                        if rd_success res
                        then (emit (snd (handleFeedbackResponse res)) st, Deliver res)
                        else fb_fail (or_else (rd_error res) ''Task completed with errors'') st)
                 else if td_status taskData = ''failed'' then
                   fb_fail (or_else (td_error taskData) ''Task execution failed'') st
                 else if td_status taskData = ''processing'' then
                   (let st1 = st\<lparr>attempts := Suc (attempts st)\<rparr> in
                    if attempts st1 < maxAttempts then (emit [Timer interval] st1, Reschedule)
                    else fb_fail fb_timeout_msg st1)
                 else fb_fail (''Unknown task status: '' @ td_status taskData) st)
          else fb_fail ''Failed to check task status'' st)"

lemma fb_on_reply_reschedule:
  "fb_on_reply r maxAttempts interval st = (st', Reschedule) \<Longrightarrow>
     attempts st' = Suc (attempts st) \<and> attempts st' < maxAttempts"
  by (auto simp: fb_on_reply_def fb_fail_def fb_caught_def received_def emit_def Let_def
      split: reply.splits option.splits if_splits)

lemma fb_on_reply_decreases:
  "(st', Reschedule) = fb_on_reply r maxAttempts interval st \<Longrightarrow>
     maxAttempts - attempts st' < maxAttempts - attempts st"
  using fb_on_reply_reschedule [of r maxAttempts interval st st'] by auto

function fb_cycles ::
  "(nat \<Rightarrow> 'v task_data reply) \<Rightarrow> string \<Rightarrow> nat \<Rightarrow> nat \<Rightarrow> 'v fb_article run_state \<Rightarrow>
     ('v fb_article run_state \<times> 'v poll_exit) list" where
  "fb_cycles srv taskId maxAttempts interval st =
     (case fb_on_reply (srv (answered st)) maxAttempts interval st of
        (st', ex) \<Rightarrow>
          (st', ex) #
          (if ex = Reschedule
           then fb_cycles srv taskId maxAttempts interval (poll_issue taskId st')
           else []))"
  by pat_completeness auto

termination fb_cycles
  apply (relation "measure (\<lambda>(srv, taskId, maxAttempts, interval, st). maxAttempts - attempts st)")
   apply simp
  apply (simp add: fb_on_reply_decreases)
  done

definition fb_poll ::
  "(nat \<Rightarrow> 'v task_data reply) \<Rightarrow> string \<Rightarrow> nat \<Rightarrow> nat \<Rightarrow> 'v fb_article run_state \<Rightarrow>
     'v fb_article run_state \<times> 'v poll_exit" where
  "fb_poll srv taskId maxAttempts interval st =
     last (fb_cycles srv taskId maxAttempts interval st)"

definition fb_maxAttempts :: nat where "fb_maxAttempts = 15"

definition fb_interval :: nat where "fb_interval = 2000"

definition sectionMapping :: "(string \<times> string) list" where
  "sectionMapping =
     [(''headline'', ''headline''), (''project_details'', ''details''),
      (''participants'', ''participants''), (''lots'', ''lots''),
      (''organizations'', ''organizations'')]"

text \<open>
  The payload of \<^verbatim>\<open>sendFeedback\<close> (lines 21 to 36). \<^verbatim>\<open>sectionMapping[section] || section\<close>
  is a lookup among the five entries of the mapping, as it is for the five section names
  the dialog offers and for every name that is not a property all objects inherit.
\<close>

definition fb_payload_of :: "string option \<Rightarrow> string \<Rightarrow> utext \<Rightarrow> fb_payload" where
  "fb_payload_of articleId section feedbackText =
     \<lparr>fp_article_id = articleId,
      fp_feedback =
        (case map_of sectionMapping section of None \<Rightarrow> section | Some b \<Rightarrow> b, feedbackText),
      fp_async_processing = False\<rparr>"

fun join_comma :: "string list \<Rightarrow> string" where
  "join_comma [] = []"
| "join_comma [x] = x"
| "join_comma (x # y # ys) = x @ '', '' @ join_comma (y # ys)"

text \<open>The message the \<^verbatim>\<open>catch\<close> of \<^verbatim>\<open>sendFeedback\<close> computes (lines 61 to 79).\<close>

definition fb_error_message :: "js_err \<Rightarrow> string" where
  "fb_error_message err =
     (case err_response_data err of
        Some d \<Rightarrow>
          (let errorMessage =
                 or_else (ed_message d)
                   (or_else (ed_detail d) (or_else (ed_error d) ''Failed to apply feedback''));
               validationErrors =
                 (case ed_data d of None \<Rightarrow> [] | Some errs \<Rightarrow> concat (map snd errs))
           in if validationErrors \<noteq> [] then join_comma validationErrors else errorMessage)
      | None \<Rightarrow> or_else (err_message err) ''Failed to apply feedback'')"

text \<open>
  \<^verbatim>\<open>sendFeedback\<close> (useFeedback.js, lines 15 to 86): the \<^verbatim>\<open>catch\<close> sets the message and
  returns null, the \<^verbatim>\<open>finally\<close> clears \<^verbatim>\<open>loading\<close>, and then the promise settles.
  \<^verbatim>\<open>pollFeedbackTask\<close> returns a promise that the run resolves or rejects when it ends,
  and \<^verbatim>\<open>sendFeedback\<close> awaits it.
\<close>

definition sendFeedback_begin ::
  "string option \<Rightarrow> string \<Rightarrow> utext \<Rightarrow> 'v fb_article event list" where
  "sendFeedback_begin articleId section feedbackText =
     [Set_loading True, Set_error None,
      Call (Post_feedback (fb_payload_of articleId section feedbackText))]"

definition sendFeedback_caught :: "js_err \<Rightarrow> 'v fb_article event list" where
  "sendFeedback_caught err =
     [Set_error (Some (fb_error_message err)), Set_loading False, Returned None]"

definition sendFeedback_rest ::
  "'v response_data reply \<Rightarrow> (nat \<Rightarrow> 'v task_data reply) \<Rightarrow> 'v fb_article event list" where
  "sendFeedback_rest r srv =
     (case r of
        Threw err \<Rightarrow> sendFeedback_caught err
      | Responded env \<Rightarrow>
          if env_success env then
            (case env_data env of
               None \<Rightarrow> sendFeedback_caught Type_error
             | Some responseData \<Rightarrow>
                 (case deferred responseData of
                    Some taskId \<Rightarrow>
                      (case fb_poll srv taskId fb_maxAttempts fb_interval (poll_start taskId []) of
                         (st, Deliver res) \<Rightarrow>
                           trace st @
                           [Set_loading False, Returned (fst (handleFeedbackResponse res))]
                       | (st, Fail msg) \<Rightarrow> trace st @ sendFeedback_caught (Error_msg msg)
                       | (st, Rethrow err) \<Rightarrow> trace st @ sendFeedback_caught err
                       | (st, Reschedule) \<Rightarrow> trace st)
                  | None \<Rightarrow>
                      snd (handleFeedbackResponse responseData) @
                      [Set_loading False, Returned (fst (handleFeedbackResponse responseData))]))
          else
            [Set_error (Some (or_else (env_message env) ''Feedback application failed'')),
             Set_loading False, Returned None])"

definition sendFeedback ::
  "'v response_data reply \<Rightarrow> (nat \<Rightarrow> 'v task_data reply) \<Rightarrow> string option \<Rightarrow> string \<Rightarrow> utext \<Rightarrow>
     'v fb_article event list" where
  "sendFeedback r srv articleId section feedbackText =
     sendFeedback_begin articleId section feedbackText @ sendFeedback_rest r srv"

text \<open>
  \<^verbatim>\<open>handleSubmit\<close> of the feedback dialog (the \<^verbatim>\<open>FeedbackModal\<close> component in
  MainRoutes.jsx, lines 30 to 63). \<^verbatim>\<open>sendFeedback\<close> catches every error, so the dialog's
  own \<^verbatim>\<open>catch\<close> is never entered. The timer that closes the dialog two seconds after a
  success only touches the dialog and is left out.
\<close>

fun is_returned :: "'a event \<Rightarrow> bool" where
  "is_returned (Returned v) = True"
| "is_returned e = False"

text \<open>The value \<^verbatim>\<open>await sendFeedback(...)\<close> gives the dialog.\<close>

definition returned_article :: "'a event list \<Rightarrow> 'a option" where
  "returned_article evs =
     (case filter is_returned evs of
        Returned (Some a) # rest \<Rightarrow> Some a
      | _ \<Rightarrow> None)"

definition feedback_handleSubmit ::
  "string option \<Rightarrow> string \<Rightarrow> utext \<Rightarrow> 'v response_data reply \<Rightarrow> (nat \<Rightarrow> 'v task_data reply) \<Rightarrow>
     'v fb_article event list" where
  "feedback_handleSubmit articleId section feedbackText r srv =
     (if \<not> truthy articleId \<or> trim feedbackText = []
      then [Set_error (Some ''Article ID and feedback text are required'')]
      else
        (let sent = sendFeedback r srv articleId section (trim feedbackText) in
         [Set_success False, Set_error None] @ sent @
         (case returned_article sent of
            Some updatedArticle \<Rightarrow> [Set_success True, Feedback_applied updatedArticle]
          | None \<Rightarrow> [])))"

section \<open>The other copy of the generation poller\<close>

text \<open>
  The file ArticleRequestForm.jsx ends with a second definition of the hook
  \<^verbatim>\<open>useArticleRequest\<close> (lines 547 to 686). Its \<^verbatim>\<open>pollTaskStatus\<close> (lines 610 to 653) has
  defaults of 30 attempts and 2000 ms, never touches the loading flag, has no branch for
  a status other than ``completed'', ``failed'' and ``processing'' (the closure then ends
  with no outcome and no timer: the exit \<open>None\<close>), and does not retry a query that throws.
\<close>

definition alt_handleArticleResponse ::
  "'v response_data \<Rightarrow> 'v gen_article event list" where
  "alt_handleArticleResponse responseData =
     (case rd_article_data responseData of
        Some d \<Rightarrow>
          [Set_article (Some \<lparr>ga_data = d,
             ga_article_id = rd_article_id responseData,
             ga_request_id = rd_request_id responseData,
             ga_validation = rd_validation responseData,
             ga_generation_time = rd_generation_time responseData,
             ga_from_cache = rd_from_cache responseData\<rparr>)]
      | None \<Rightarrow> [Set_error (Some ''Invalid article data received'')])"

definition alt_fail :: "string \<Rightarrow> 'a run_state \<Rightarrow> 'a run_state \<times> 'v poll_exit option" where
  "alt_fail msg st = (emit [Set_error (Some msg)] st, Some (Fail msg))"

definition alt_timeout_msg :: string where
  "alt_timeout_msg = ''Task timed out - please try again''"

definition alt_maxAttempts :: nat where "alt_maxAttempts = 30"

definition alt_interval :: nat where "alt_interval = 2000"

definition alt_on_reply ::
  "'v task_data reply \<Rightarrow> nat \<Rightarrow> nat \<Rightarrow> 'v gen_article run_state \<Rightarrow>
     'v gen_article run_state \<times> 'v poll_exit option" where
  "alt_on_reply r maxAttempts interval st0 =
     (let st = received st0 in
      case r of
        Threw err \<Rightarrow> alt_fail ''Failed to check task status'' st
      | Responded env \<Rightarrow>
          if env_success env then
            (case env_data env of
               None \<Rightarrow> alt_fail ''Failed to check task status'' st
             | Some taskData \<Rightarrow>
                 if td_status taskData = ''completed'' then
                   (case td_result taskData of
                      None \<Rightarrow> alt_fail ''Task completed with errors'' st
                    | Some res \<Rightarrow>
                        if rd_success res
                        then (emit (alt_handleArticleResponse res) st, Some (Deliver res))
                        else alt_fail (or_else (rd_error res) ''Task completed with errors'') st)
                 else if td_status taskData = ''failed'' then
                   alt_fail (or_else (td_error taskData) ''Task execution failed'') st
                 else if td_status taskData = ''processing'' then
                   (let st1 = st\<lparr>attempts := Suc (attempts st)\<rparr> in
                    if attempts st1 < maxAttempts
                    then (emit [Timer interval] st1, Some Reschedule)
                    else alt_fail alt_timeout_msg st1)
                 else (st, None))
          else alt_fail ''Failed to check task status'' st)"

lemma alt_on_reply_reschedule:
  "alt_on_reply r maxAttempts interval st = (st', Some Reschedule) \<Longrightarrow>
     attempts st' = Suc (attempts st) \<and> attempts st' < maxAttempts"
  by (auto simp: alt_on_reply_def alt_fail_def received_def emit_def Let_def
      split: reply.splits option.splits if_splits)

lemma alt_on_reply_decreases:
  "(st', Some Reschedule) = alt_on_reply r maxAttempts interval st \<Longrightarrow>
     maxAttempts - attempts st' < maxAttempts - attempts st"
  using alt_on_reply_reschedule [of r maxAttempts interval st st'] by auto

function alt_cycles ::
  "(nat \<Rightarrow> 'v task_data reply) \<Rightarrow> string \<Rightarrow> nat \<Rightarrow> nat \<Rightarrow> 'v gen_article run_state \<Rightarrow>
     ('v gen_article run_state \<times> 'v poll_exit option) list" where
  "alt_cycles srv taskId maxAttempts interval st =
     (case alt_on_reply (srv (answered st)) maxAttempts interval st of
        (st', ex) \<Rightarrow>
          (st', ex) #
          (if ex = Some Reschedule
           then alt_cycles srv taskId maxAttempts interval (poll_issue taskId st')
           else []))"
  by pat_completeness auto

termination alt_cycles
  apply (relation "measure (\<lambda>(srv, taskId, maxAttempts, interval, st). maxAttempts - attempts st)")
   apply simp
  apply (simp add: alt_on_reply_decreases)
  done

section \<open>Observations on a timeline\<close>

fun is_query :: "'a event \<Rightarrow> bool" where
  "is_query (Call (Get_status t)) = True"
| "is_query e = False"

definition queries :: "'a event list \<Rightarrow> nat" where
  "queries tr = length (filter is_query tr)"

fun is_call :: "'a event \<Rightarrow> bool" where
  "is_call (Call rq) = True"
| "is_call e = False"

definition network_calls :: "'a event list \<Rightarrow> nat" where
  "network_calls tr = length (filter is_call tr)"

fun is_timer :: "'a event \<Rightarrow> bool" where
  "is_timer (Timer n) = True"
| "is_timer e = False"

text \<open>The state of a hook (\<^verbatim>\<open>useState\<close>) after the events of a timeline.\<close>

record 'a hook_state =
  hs_loading :: bool
  hs_error :: "string option"
  hs_article :: "'a option"

fun hook_step :: "'a hook_state \<Rightarrow> 'a event \<Rightarrow> 'a hook_state" where
  "hook_step h (Set_loading b) = h\<lparr>hs_loading := b\<rparr>"
| "hook_step h (Set_error e) = h\<lparr>hs_error := e\<rparr>"
| "hook_step h (Set_article a) = h\<lparr>hs_article := a\<rparr>"
| "hook_step h e = h"

definition hook_after :: "'a event list \<Rightarrow> 'a hook_state" where
  "hook_after tr = foldl hook_step \<lparr>hs_loading = False, hs_error = None, hs_article = None\<rparr> tr"

text \<open>A run ends by handing an embedded result to the hook's response handler.\<close>

fun delivered :: "'v poll_exit \<Rightarrow> bool" where
  "delivered (Deliver res) = True"
| "delivered ex = False"

text \<open>The events with which a run of each poller ends, by the way it ends.\<close>

fun gen_finish :: "'v poll_exit \<Rightarrow> 'v gen_article event list" where
  "gen_finish (Deliver res) = handleArticleResponse res"
| "gen_finish (Fail msg) = [Set_error (Some msg), Set_loading False]"
| "gen_finish ex = []"

fun fb_finish :: "'v poll_exit \<Rightarrow> 'v fb_article event list" where
  "fb_finish (Deliver res) = snd (handleFeedbackResponse res)"
| "fb_finish (Fail msg) = [Set_error (Some msg)]"
| "fb_finish (Rethrow err) =
     [Set_error (Some (or_else
        (case err_response_data err of None \<Rightarrow> None | Some d \<Rightarrow> ed_message d)
        ''Failed to check task status''))]"
| "fb_finish Reschedule = []"

fun gen_ended :: "'v poll_exit \<Rightarrow> bool" where
  "gen_ended (Deliver res) = True"
| "gen_ended (Fail msg) = True"
| "gen_ended ex = False"

text \<open>Events that leave the state of the hook alone.\<close>

definition quiet :: "'a event \<Rightarrow> bool" where
  "quiet e = (is_call e \<or> is_timer e \<or> is_returned e)"

definition polling :: "'a event \<Rightarrow> bool" where
  "polling e = (is_call e \<or> is_timer e)"

text \<open>The promise of the operation settles as the last event of its timeline.\<close>

definition settles_last :: "'a event list \<Rightarrow> bool" where
  "settles_last tr = (tr \<noteq> [] \<and> is_returned (last tr))"

text \<open>The task a submission reply defers to, if it defers.\<close>

definition deferral :: "'v response_data reply \<Rightarrow> string option" where
  "deferral r =
     (case r of
        Threw err \<Rightarrow> None
      | Responded env \<Rightarrow>
          if env_success env
          then (case env_data env of None \<Rightarrow> None | Some responseData \<Rightarrow> deferred responseData)
          else None)"

text \<open>
  A reply all three pollers have a branch for: the envelope reports failure of the
  query, or it carries a task whose status is ``completed'', ``failed'' or
  ``processing''.
\<close>

definition plain :: "'v task_data reply \<Rightarrow> bool" where
  "plain r =
     (case r of
        Threw err \<Rightarrow> False
      | Responded env \<Rightarrow>
          if env_success env
          then (case env_data env of
                  None \<Rightarrow> False
                | Some taskData \<Rightarrow>
                    td_status taskData \<in> {''completed'', ''failed'', ''processing''})
          else True)"

definition timeout_msgs :: "string set" where
  "timeout_msgs = {gen_timeout_msg, fb_timeout_msg, alt_timeout_msg}"

text \<open>
  Two executions of \<^verbatim>\<open>poll\<close> end the same way: with the same exit, or each with the
  time-out message of its own poller.
\<close>

fun same_end :: "'v poll_exit \<Rightarrow> 'v poll_exit \<Rightarrow> bool" where
  "same_end (Fail a) (Fail b) = (a = b \<or> (a \<in> timeout_msgs \<and> b \<in> timeout_msgs))"
| "same_end e1 e2 = (e1 = e2)"

section \<open>Sample values\<close>

text \<open>The backend's replies to the status queries: the listed ones in order, then \<open>d\<close>.\<close>

definition replies :: "'d reply list \<Rightarrow> 'd reply \<Rightarrow> nat \<Rightarrow> 'd reply" where
  "replies xs d k = (if k < length xs then xs ! k else d)"

text \<open>A status reply that carries only a status string.\<close>

definition status_reply :: "string \<Rightarrow> 'v task_data reply" where
  "status_reply s =
     Responded \<lparr>env_success = True, env_message = None,
       env_data = Some \<lparr>td_status = s, td_result = None, td_error = None\<rparr>\<rparr>"

text \<open>Sample replies: a finished task with the given result, and a result with article data.\<close>

definition completed_reply :: "'v response_data \<Rightarrow> 'v task_data reply" where
  "completed_reply res =
     Responded \<lparr>env_success = True, env_message = None,
       env_data = Some \<lparr>td_status = ''completed'', td_result = Some res, td_error = None\<rparr>\<rparr>"

definition sample_result :: "bool \<Rightarrow> string option \<Rightarrow> unit response_data" where
  "sample_result ok err =
     \<lparr>rd_async = False, rd_task_id = None, rd_success = ok, rd_error = err,
      rd_article_data = Some (), rd_article = None, rd_article_id = Some ''a1'',
      rd_request_id = None, rd_validation = None, rd_generation_time = None,
      rd_from_cache = None, rd_feedback_applied = False\<rparr>"

definition network_error :: js_err where
  "network_error = Axios_error (Some ''Network Error'') None"

text \<open>The code units of a text in ASCII.\<close>

definition ascii :: "string \<Rightarrow> utext" where
  "ascii s = map of_char s"

text \<open>Sample submissions: a reply that defers to a task, and a request for a URL.\<close>

definition deferred_reply :: "string \<Rightarrow> unit response_data reply" where
  "deferred_reply taskId =
     Responded \<lparr>env_success = True, env_message = None,
       env_data = Some ((sample_result False None)\<lparr>rd_async := True, rd_task_id := Some taskId\<rparr>)\<rparr>"

definition sample_request :: request_data where
  "sample_request =
     \<lparr>rq_input_type = ''url'', rq_input_value = ascii ''https://example.org/a'',
      rq_instruction = None, rq_force_refresh = None, rq_async = None\<rparr>"

section \<open>Facts about the generation poller\<close>

declare gen_cycles.simps [simp del]

lemma gen_on_reply_attempts:
  "gen_on_reply r maxAttempts interval st = (st', ex) \<Longrightarrow>
     attempts st \<le> attempts st' \<and> attempts st' \<le> Suc (attempts st)"
  by (auto simp: gen_on_reply_def gen_fail_def gen_retry_def received_def emit_def Let_def
      split: reply.splits option.splits if_splits)

lemma queries_append [simp]: "queries (xs @ ys) = queries xs + queries ys"
  by (simp add: queries_def)

lemma queries_Nil [simp]: "queries [] = 0"
  by (simp add: queries_def)

lemma filter_query_handleArticleResponse [simp]:
  "filter is_query (handleArticleResponse res) = []"
  by (simp add: handleArticleResponse_def split: option.splits)

lemma gen_on_reply_queries:
  "gen_on_reply r maxAttempts interval st = (st', ex) \<Longrightarrow>
     queries (trace st') = queries (trace st)"
  by (auto simp: gen_on_reply_def gen_fail_def gen_retry_def received_def emit_def Let_def
      queries_def split: reply.splits option.splits if_splits)

lemma queries_poll_issue [simp]:
  "queries (trace (poll_issue taskId st)) = Suc (queries (trace st))"
  by (simp add: poll_issue_def emit_def queries_def)

lemma gen_cycles_not_Nil [simp]: "gen_cycles srv taskId maxAttempts interval st \<noteq> []"
  by (subst gen_cycles.simps) (simp split: prod.splits)

lemma gen_cycles_length:
  "attempts st < maxAttempts \<Longrightarrow>
     length (gen_cycles srv taskId maxAttempts interval st) \<le> maxAttempts - attempts st"
proof (induction srv taskId maxAttempts interval st rule: gen_cycles.induct)
  case (1 srv taskId maxAttempts interval st)
  obtain st' ex where r: "gen_on_reply (srv (answered st)) maxAttempts interval st = (st', ex)"
    by force
  show ?case
  proof (cases "ex = Reschedule")
    case True
    with r gen_on_reply_reschedule [of "srv (answered st)" maxAttempts interval st st']
    have a: "attempts st' = Suc (attempts st)" "attempts st' < maxAttempts"
      by simp_all
    have "length (gen_cycles srv taskId maxAttempts interval (poll_issue taskId st'))
            \<le> maxAttempts - attempts (poll_issue taskId st')"
      using "1.IH" [OF r [symmetric] True] a by simp
    then show ?thesis
      using r True a by (subst gen_cycles.simps) simp
  next
    case False
    then show ?thesis
      using r "1.prems" by (subst gen_cycles.simps) simp
  qed
qed

lemma gen_cycles_unfold:
  "gen_on_reply (srv (answered st)) maxAttempts interval st = (st', ex) \<Longrightarrow>
     gen_cycles srv taskId maxAttempts interval st =
       (st', ex) #
       (if ex = Reschedule
        then gen_cycles srv taskId maxAttempts interval (poll_issue taskId st') else [])"
  by (subst gen_cycles.simps) simp

lemma gen_run_induct [case_names stop again]:
  assumes stop: "\<And>st st' ex.
      gen_on_reply (srv (answered st)) maxAttempts interval st = (st', ex) \<Longrightarrow>
      ex \<noteq> Reschedule \<Longrightarrow> P st"
    and again: "\<And>st st'.
      gen_on_reply (srv (answered st)) maxAttempts interval st = (st', Reschedule) \<Longrightarrow>
      P (poll_issue taskId st') \<Longrightarrow> P st"
  shows "P st"
  using assms
proof (induction srv taskId maxAttempts interval st rule: gen_cycles.induct)
  case (1 srv taskId maxAttempts interval st)
  obtain st' ex where r: "gen_on_reply (srv (answered st)) maxAttempts interval st = (st', ex)"
    by force
  show ?case
  proof (cases "ex = Reschedule")
    case True
    have "gen_on_reply (srv (answered st)) maxAttempts interval st = (st', Reschedule)"
      using r True by simp
    moreover have "P (poll_issue taskId st')"
      using "1.IH" [OF r [symmetric] True] "1.prems" by blast
    ultimately show ?thesis
      by (rule "1.prems"(2))
  next
    case False
    with r show ?thesis
      by (rule "1.prems"(1))
  qed
qed

lemma gen_cycles_queries:
  "Suc (queries (trace (fst (last (gen_cycles srv taskId maxAttempts interval st))))) =
     queries (trace st) + length (gen_cycles srv taskId maxAttempts interval st)"
proof (induction st rule: gen_run_induct [of srv maxAttempts interval _ taskId])
  case (stop st st' ex)
  then show ?case
    using gen_on_reply_queries [of "srv (answered st)" maxAttempts interval st st' ex]
    by (simp add: gen_cycles_unfold [of srv st maxAttempts interval st' ex])
next
  case (again st st')
  then show ?case
    using gen_on_reply_queries [of "srv (answered st)" maxAttempts interval st st' Reschedule]
    by (simp add: gen_cycles_unfold [of srv st maxAttempts interval st' Reschedule])
qed

lemma gen_cycles_attempts:
  "attempts st < maxAttempts \<Longrightarrow>
     (s, ex) \<in> set (gen_cycles srv taskId maxAttempts interval st) \<Longrightarrow>
     attempts st \<le> attempts s \<and> attempts s \<le> maxAttempts"
proof (induction st rule: gen_run_induct [of srv maxAttempts interval _ taskId])
  case (stop st st' ex')
  then show ?case
    using gen_on_reply_attempts [of "srv (answered st)" maxAttempts interval st st' ex']
    by (auto simp: gen_cycles_unfold [of srv st maxAttempts interval st' ex'])
next
  case (again st st')
  from again(1) have a: "attempts st' = Suc (attempts st)" "attempts st' < maxAttempts"
    using gen_on_reply_reschedule by blast+
  from again(1,4) have "(s, ex) = (st', Reschedule) \<or>
      (s, ex) \<in> set (gen_cycles srv taskId maxAttempts interval (poll_issue taskId st'))"
    by (simp add: gen_cycles_unfold [of srv st maxAttempts interval st' Reschedule])
  then show ?case
  proof
    assume "(s, ex) = (st', Reschedule)"
    then show ?thesis using a by simp
  next
    assume "(s, ex) \<in> set (gen_cycles srv taskId maxAttempts interval (poll_issue taskId st'))"
    with again(2) a show ?thesis by simp
  qed
qed

lemma gen_cycles_exits:
  "snd (last (gen_cycles srv taskId maxAttempts interval st)) \<noteq> Reschedule \<and>
   (\<forall>c \<in> set (butlast (gen_cycles srv taskId maxAttempts interval st)). snd c = Reschedule)"
proof (induction st rule: gen_run_induct [of srv maxAttempts interval _ taskId])
  case (stop st st' ex)
  then show ?case
    by (simp add: gen_cycles_unfold [of srv st maxAttempts interval st' ex])
next
  case (again st st')
  then show ?case
    by (simp add: gen_cycles_unfold [of srv st maxAttempts interval st' Reschedule])
qed

section \<open>Facts about the feedback poller\<close>

lemma filter_query_handleFeedbackResponse [simp]:
  "filter is_query (snd (handleFeedbackResponse res)) = []"
  by (simp add: handleFeedbackResponse_def split: option.splits)

declare fb_cycles.simps [simp del]

lemma fb_on_reply_attempts:
  "fb_on_reply r maxAttempts interval st = (st', ex) \<Longrightarrow>
     attempts st \<le> attempts st' \<and> attempts st' \<le> Suc (attempts st)"
  by (auto simp: fb_on_reply_def fb_fail_def fb_caught_def received_def emit_def Let_def
      split: reply.splits option.splits if_splits)

lemma fb_on_reply_queries:
  "fb_on_reply r maxAttempts interval st = (st', ex) \<Longrightarrow>
     queries (trace st') = queries (trace st)"
  by (auto simp: fb_on_reply_def fb_fail_def fb_caught_def received_def emit_def Let_def
      queries_def split: reply.splits option.splits if_splits)

lemma fb_cycles_not_Nil [simp]: "fb_cycles srv taskId maxAttempts interval st \<noteq> []"
  by (subst fb_cycles.simps) (simp split: prod.splits)

lemma fb_cycles_length:
  "attempts st < maxAttempts \<Longrightarrow>
     length (fb_cycles srv taskId maxAttempts interval st) \<le> maxAttempts - attempts st"
proof (induction srv taskId maxAttempts interval st rule: fb_cycles.induct)
  case (1 srv taskId maxAttempts interval st)
  obtain st' ex where r: "fb_on_reply (srv (answered st)) maxAttempts interval st = (st', ex)"
    by force
  show ?case
  proof (cases "ex = Reschedule")
    case True
    with r fb_on_reply_reschedule [of "srv (answered st)" maxAttempts interval st st']
    have a: "attempts st' = Suc (attempts st)" "attempts st' < maxAttempts"
      by simp_all
    have "length (fb_cycles srv taskId maxAttempts interval (poll_issue taskId st'))
            \<le> maxAttempts - attempts (poll_issue taskId st')"
      using "1.IH" [OF r [symmetric] True] a by simp
    then show ?thesis
      using r True a by (subst fb_cycles.simps) simp
  next
    case False
    then show ?thesis
      using r "1.prems" by (subst fb_cycles.simps) simp
  qed
qed

lemma fb_cycles_unfold:
  "fb_on_reply (srv (answered st)) maxAttempts interval st = (st', ex) \<Longrightarrow>
     fb_cycles srv taskId maxAttempts interval st =
       (st', ex) #
       (if ex = Reschedule
        then fb_cycles srv taskId maxAttempts interval (poll_issue taskId st') else [])"
  by (subst fb_cycles.simps) simp

lemma fb_run_induct [case_names stop again]:
  assumes stop: "\<And>st st' ex.
      fb_on_reply (srv (answered st)) maxAttempts interval st = (st', ex) \<Longrightarrow>
      ex \<noteq> Reschedule \<Longrightarrow> P st"
    and again: "\<And>st st'.
      fb_on_reply (srv (answered st)) maxAttempts interval st = (st', Reschedule) \<Longrightarrow>
      P (poll_issue taskId st') \<Longrightarrow> P st"
  shows "P st"
  using assms
proof (induction srv taskId maxAttempts interval st rule: fb_cycles.induct)
  case (1 srv taskId maxAttempts interval st)
  obtain st' ex where r: "fb_on_reply (srv (answered st)) maxAttempts interval st = (st', ex)"
    by force
  show ?case
  proof (cases "ex = Reschedule")
    case True
    have "fb_on_reply (srv (answered st)) maxAttempts interval st = (st', Reschedule)"
      using r True by simp
    moreover have "P (poll_issue taskId st')"
      using "1.IH" [OF r [symmetric] True] "1.prems" by blast
    ultimately show ?thesis
      by (rule "1.prems"(2))
  next
    case False
    with r show ?thesis
      by (rule "1.prems"(1))
  qed
qed

lemma fb_cycles_queries:
  "Suc (queries (trace (fst (last (fb_cycles srv taskId maxAttempts interval st))))) =
     queries (trace st) + length (fb_cycles srv taskId maxAttempts interval st)"
proof (induction st rule: fb_run_induct [of srv maxAttempts interval _ taskId])
  case (stop st st' ex)
  then show ?case
    using fb_on_reply_queries [of "srv (answered st)" maxAttempts interval st st' ex]
    by (simp add: fb_cycles_unfold [of srv st maxAttempts interval st' ex])
next
  case (again st st')
  then show ?case
    using fb_on_reply_queries [of "srv (answered st)" maxAttempts interval st st' Reschedule]
    by (simp add: fb_cycles_unfold [of srv st maxAttempts interval st' Reschedule])
qed

lemma fb_cycles_attempts:
  "attempts st < maxAttempts \<Longrightarrow>
     (s, ex) \<in> set (fb_cycles srv taskId maxAttempts interval st) \<Longrightarrow>
     attempts st \<le> attempts s \<and> attempts s \<le> maxAttempts"
proof (induction st rule: fb_run_induct [of srv maxAttempts interval _ taskId])
  case (stop st st' ex')
  then show ?case
    using fb_on_reply_attempts [of "srv (answered st)" maxAttempts interval st st' ex']
    by (auto simp: fb_cycles_unfold [of srv st maxAttempts interval st' ex'])
next
  case (again st st')
  from again(1) have a: "attempts st' = Suc (attempts st)" "attempts st' < maxAttempts"
    using fb_on_reply_reschedule by blast+
  from again(1,4) have "(s, ex) = (st', Reschedule) \<or>
      (s, ex) \<in> set (fb_cycles srv taskId maxAttempts interval (poll_issue taskId st'))"
    by (simp add: fb_cycles_unfold [of srv st maxAttempts interval st' Reschedule])
  then show ?case
  proof
    assume "(s, ex) = (st', Reschedule)"
    then show ?thesis using a by simp
  next
    assume "(s, ex) \<in> set (fb_cycles srv taskId maxAttempts interval (poll_issue taskId st'))"
    with again(2) a show ?thesis by simp
  qed
qed

lemma fb_cycles_exits:
  "snd (last (fb_cycles srv taskId maxAttempts interval st)) \<noteq> Reschedule \<and>
   (\<forall>c \<in> set (butlast (fb_cycles srv taskId maxAttempts interval st)). snd c = Reschedule)"
proof (induction st rule: fb_run_induct [of srv maxAttempts interval _ taskId])
  case (stop st st' ex)
  then show ?case
    by (simp add: fb_cycles_unfold [of srv st maxAttempts interval st' ex])
next
  case (again st st')
  then show ?case
    by (simp add: fb_cycles_unfold [of srv st maxAttempts interval st' Reschedule])
qed

section \<open>The attempt budget\<close>

lemma gen_poll_queries:
  "queries (trace (fst (gen_poll srv taskId maxAttempts interval (poll_start taskId [])))) =
     length (gen_cycles srv taskId maxAttempts interval (poll_start taskId []))"
  using gen_cycles_queries [of srv taskId maxAttempts interval "poll_start taskId []"]
  by (simp add: gen_poll_def poll_start_def)

lemma fb_poll_queries:
  "queries (trace (fst (fb_poll srv taskId maxAttempts interval (poll_start taskId [])))) =
     length (fb_cycles srv taskId maxAttempts interval (poll_start taskId []))"
  using fb_cycles_queries [of srv taskId maxAttempts interval "poll_start taskId []"]
  by (simp add: fb_poll_def poll_start_def)

lemma attempts_poll_start [simp]: "attempts (poll_start taskId tr) = 0"
  by (simp add: poll_start_def)

text \<open>
  Claim C5. A poll run of either kind issues at most \<open>maxAttempts\<close> status queries, and
  the attempt counter is at most \<open>maxAttempts\<close> after every execution of \<^verbatim>\<open>poll\<close> (it is 0
  before the first). Both pollers query once before they look at the counter, so the
  bound needs \<open>maxAttempts\<close> to be at least 1; the hooks only ever run them with their
  defaults, 60 and 15.
\<close>

theorem poll_respects_attempt_budget:
  assumes "0 < maxAttempts"
  shows "queries (trace (fst (gen_poll srv taskId maxAttempts interval (poll_start taskId []))))
           \<le> maxAttempts
       \<and> (\<forall>c \<in> set (gen_cycles srv taskId maxAttempts interval (poll_start taskId [])).
            attempts (fst c) \<le> maxAttempts)
       \<and> queries (trace (fst (fb_poll srv' taskId maxAttempts interval (poll_start taskId []))))
           \<le> maxAttempts
       \<and> (\<forall>c \<in> set (fb_cycles srv' taskId maxAttempts interval (poll_start taskId [])).
            attempts (fst c) \<le> maxAttempts)"
proof -
  have g: "length (gen_cycles srv taskId maxAttempts interval (poll_start taskId []))
             \<le> maxAttempts"
    using gen_cycles_length [of "poll_start taskId []" maxAttempts srv taskId interval] assms
    by simp
  have f: "length (fb_cycles srv' taskId maxAttempts interval (poll_start taskId []))
             \<le> maxAttempts"
    using fb_cycles_length [of "poll_start taskId []" maxAttempts srv' taskId interval] assms
    by simp
  have ga: "attempts (fst c) \<le> maxAttempts"
    if "c \<in> set (gen_cycles srv taskId maxAttempts interval (poll_start taskId []))" for c
    using gen_cycles_attempts [of "poll_start taskId []" maxAttempts "fst c" "snd c" srv taskId interval]
      assms that by simp
  have fa: "attempts (fst c) \<le> maxAttempts"
    if "c \<in> set (fb_cycles srv' taskId maxAttempts interval (poll_start taskId []))" for c
    using fb_cycles_attempts [of "poll_start taskId []" maxAttempts "fst c" "snd c" srv' taskId interval]
      assms that by simp
  show ?thesis
    using g f ga fa by (simp add: gen_poll_queries fb_poll_queries)
qed

text \<open>
  With a budget of 0 either poller still makes its one query: the counter is compared
  only after a reply.
\<close>

lemma zero_budget_queries_once:
  "queries (trace (fst (gen_poll srv taskId 0 interval (poll_start taskId [])))) = 1
   \<and> queries (trace (fst (fb_poll srv' taskId 0 interval (poll_start taskId [])))) = 1"
proof -
  define g0 :: "'a gen_article run_state" where "g0 = poll_start taskId []"
  define f0 :: "'b fb_article run_state" where "f0 = poll_start taskId []"
  obtain sg eg where g: "gen_on_reply (srv (answered g0)) 0 interval g0 = (sg, eg)"
    by force
  with gen_on_reply_reschedule [of _ 0 interval _ sg] have "eg \<noteq> Reschedule"
    by auto
  with gen_cycles_unfold [where srv = srv and st = g0 and taskId = taskId, OF g]
  have gc: "length (gen_cycles srv taskId 0 interval g0) = 1"
    by simp
  obtain sf ef where f: "fb_on_reply (srv' (answered f0)) 0 interval f0 = (sf, ef)"
    by force
  with fb_on_reply_reschedule [of _ 0 interval _ sf] have "ef \<noteq> Reschedule"
    by auto
  with fb_cycles_unfold [where srv = srv' and st = f0 and taskId = taskId, OF f]
  have fc: "length (fb_cycles srv' taskId 0 interval f0) = 1"
    by simp
  show ?thesis
    using gc fc by (simp add: gen_poll_queries fb_poll_queries g0_def f0_def)
qed

lemmas run_eval =
  gen_poll_def gen_cycles.simps gen_on_reply_def gen_retry_def gen_fail_def
  fb_poll_def fb_cycles.simps fb_on_reply_def fb_fail_def fb_caught_def
  replies_def status_reply_def poll_start_def poll_issue_def emit_def received_def
  queries_def

text \<open>
  The budget at work (scenario D of the specification): with \<open>maxAttempts = 3\<close> and every
  reply pending, the generation poller makes exactly 3 queries and its counter goes 1, 2,
  3; the feedback poller does the same on replies that are all processing.
\<close>

theorem poll_respects_attempt_budget_witness:
  "queries (trace (fst (gen_poll (replies [] (status_reply ''pending'' :: unit task_data reply))
       ''t1'' 3 3000 (poll_start ''t1'' [])))) \<le> 3
   \<and> queries (trace (fst (gen_poll (replies [] (status_reply ''pending'' :: unit task_data reply))
       ''t1'' 3 3000 (poll_start ''t1'' [])))) = 3
   \<and> map (\<lambda>c. attempts (fst c))
        (gen_cycles (replies [] (status_reply ''pending'' :: unit task_data reply))
           ''t1'' 3 3000 (poll_start ''t1'' [])) = [1, 2, 3]
   \<and> queries (trace (fst (fb_poll (replies [] (status_reply ''processing'' :: unit task_data reply))
       ''t1'' 3 2000 (poll_start ''t1'' [])))) \<le> 3
   \<and> map (\<lambda>c. attempts (fst c))
        (fb_cycles (replies [] (status_reply ''processing'' :: unit task_data reply))
           ''t1'' 3 2000 (poll_start ''t1'' [])) = [1, 2, 3]"
proof -
  have "(0::nat) < 3" by simp
  from poll_respects_attempt_budget [OF this,
      of "replies [] (status_reply ''pending'' :: unit task_data reply)" "''t1''" 3000
         "replies [] (status_reply ''processing'' :: unit task_data reply)"]
  show ?thesis
    by (simp add: run_eval)
qed

section \<open>A status reply that reports failure of the query itself\<close>

text \<open>
  Claim C10. A status reply whose envelope has \<^verbatim>\<open>success\<close> false ends the run of either
  poller at once with the message ``Failed to check task status'': the run has no further
  cycle, the attempt counter keeps its value and no further query is issued.
\<close>

theorem failed_status_envelope_ends_run:
  assumes "srv (answered st) = Responded env" and "\<not> env_success env"
    and "srv' (answered st') = Responded env'" and "\<not> env_success env'"
  shows "gen_cycles srv taskId maxAttempts interval st =
           [(emit [Set_error (Some ''Failed to check task status''), Set_loading False]
               (received st),
             Fail ''Failed to check task status'')]
       \<and> attempts (fst (gen_poll srv taskId maxAttempts interval st)) = attempts st
       \<and> queries (trace (fst (gen_poll srv taskId maxAttempts interval st))) = queries (trace st)
       \<and> fb_cycles srv' taskId maxAttempts interval st' =
           [(emit [Set_error (Some ''Failed to check task status'')] (received st'),
             Fail ''Failed to check task status'')]
       \<and> attempts (fst (fb_poll srv' taskId maxAttempts interval st')) = attempts st'
       \<and> queries (trace (fst (fb_poll srv' taskId maxAttempts interval st'))) = queries (trace st')"
proof -
  have g: "gen_on_reply (srv (answered st)) maxAttempts interval st =
      (emit [Set_error (Some ''Failed to check task status''), Set_loading False] (received st),
       Fail ''Failed to check task status'')"
    using assms(1,2) by (simp add: gen_on_reply_def gen_fail_def)
  have f: "fb_on_reply (srv' (answered st')) maxAttempts interval st' =
      (emit [Set_error (Some ''Failed to check task status'')] (received st'),
       Fail ''Failed to check task status'')"
    using assms(3,4) by (simp add: fb_on_reply_def fb_fail_def)
  have gc: "gen_cycles srv taskId maxAttempts interval st =
           [(emit [Set_error (Some ''Failed to check task status''), Set_loading False]
               (received st),
             Fail ''Failed to check task status'')]"
    using g gen_cycles_unfold [where srv = srv and st = st and taskId = taskId] by simp
  have fc: "fb_cycles srv' taskId maxAttempts interval st' =
           [(emit [Set_error (Some ''Failed to check task status'')] (received st'),
             Fail ''Failed to check task status'')]"
    using f fb_cycles_unfold [where srv = srv' and st = st' and taskId = taskId] by simp
  show ?thesis
    by (simp add: gc fc gen_poll_def fb_poll_def emit_def received_def queries_def)
qed

theorem failed_status_envelope_ends_run_witness:
  "gen_cycles (replies [status_reply ''processing'',
        Responded \<lparr>env_success = False, env_message = None, env_data = None\<rparr>]
        (status_reply ''processing'' :: unit task_data reply))
      ''t1'' 15 2000
      \<lparr>attempts = 1, answered = 1,
       trace = [Call (Get_status ''t1''), Timer 2000, Call (Get_status ''t1'')]\<rparr> =
     [(\<lparr>attempts = 1, answered = 2,
        trace = [Call (Get_status ''t1''), Timer 2000, Call (Get_status ''t1''),
                 Set_error (Some ''Failed to check task status''), Set_loading False]\<rparr>,
       Fail ''Failed to check task status'')]
   \<and> fb_cycles (replies [status_reply ''processing'',
        Responded \<lparr>env_success = False, env_message = None, env_data = None\<rparr>]
        (status_reply ''processing'' :: unit task_data reply))
      ''t1'' 15 2000
      \<lparr>attempts = 1, answered = 1,
       trace = [Call (Get_status ''t1''), Timer 2000, Call (Get_status ''t1'')]\<rparr> =
     [(\<lparr>attempts = 1, answered = 2,
        trace = [Call (Get_status ''t1''), Timer 2000, Call (Get_status ''t1''),
                 Set_error (Some ''Failed to check task status'')]\<rparr>,
       Fail ''Failed to check task status'')]"
  using failed_status_envelope_ends_run
    [of "replies [status_reply ''processing'',
           Responded \<lparr>env_success = False, env_message = None, env_data = None\<rparr>]
           (status_reply ''processing'' :: unit task_data reply)"
        "\<lparr>attempts = 1, answered = 1,
          trace = [Call (Get_status ''t1''), Timer 2000, Call (Get_status ''t1'')]\<rparr>"
        "\<lparr>env_success = False, env_message = None, env_data = None\<rparr>"
        "replies [status_reply ''processing'',
           Responded \<lparr>env_success = False, env_message = None, env_data = None\<rparr>]
           (status_reply ''processing'' :: unit task_data reply)"
        "\<lparr>attempts = 1, answered = 1,
          trace = [Call (Get_status ''t1''), Timer 2000, Call (Get_status ''t1'')]\<rparr>"
        "\<lparr>env_success = False, env_message = None, env_data = None\<rparr>"
        "''t1''" 15 2000]
  by (simp add: replies_def emit_def received_def)

section \<open>Terminal statuses\<close>

lemma gen_cycles_stop:
  "gen_on_reply (srv (answered st)) maxAttempts interval st = (st1, ex) \<Longrightarrow> ex \<noteq> Reschedule \<Longrightarrow>
     gen_cycles srv taskId maxAttempts interval st = [(st1, ex)]"
  using gen_cycles_unfold [where srv = srv and st = st and taskId = taskId] by simp

lemma gen_cycles_again:
  "gen_on_reply (srv (answered st)) maxAttempts interval st = (st1, Reschedule) \<Longrightarrow>
     gen_cycles srv taskId maxAttempts interval st =
       (st1, Reschedule) # gen_cycles srv taskId maxAttempts interval (poll_issue taskId st1)"
  using gen_cycles_unfold [where srv = srv and st = st and taskId = taskId] by simp

lemma fb_cycles_stop:
  "fb_on_reply (srv (answered st)) maxAttempts interval st = (st1, ex) \<Longrightarrow> ex \<noteq> Reschedule \<Longrightarrow>
     fb_cycles srv taskId maxAttempts interval st = [(st1, ex)]"
  using fb_cycles_unfold [where srv = srv and st = st and taskId = taskId] by simp

lemma fb_cycles_again:
  "fb_on_reply (srv (answered st)) maxAttempts interval st = (st1, Reschedule) \<Longrightarrow>
     fb_cycles srv taskId maxAttempts interval st =
       (st1, Reschedule) # fb_cycles srv taskId maxAttempts interval (poll_issue taskId st1)"
  using fb_cycles_unfold [where srv = srv and st = st and taskId = taskId] by simp

text \<open>
  Claim C7. On a status reply ``completed'' either poller ends the run at once and looks
  into the embedded result: the result goes to the response handler exactly when it is
  present and its \<^verbatim>\<open>success\<close> holds; otherwise the run fails with the error message of
  the result (or ``Task completed with errors'' when there is none).
\<close>

theorem completed_status_inspects_result:
  assumes "srv (answered st) = Responded env" and "env_success env"
    and "env_data env = Some taskData" and "td_status taskData = ''completed''"
    and "srv' (answered st') = Responded env'" and "env_success env'"
    and "env_data env' = Some taskData'" and "td_status taskData' = ''completed''"
  shows "gen_cycles srv taskId maxAttempts interval st =
           [case td_result taskData of
              None \<Rightarrow>
                (emit [Set_error (Some ''Task completed with errors''), Set_loading False]
                   (received st),
                 Fail ''Task completed with errors'')
            | Some res \<Rightarrow>
                if rd_success res
                then (emit (handleArticleResponse res) (received st), Deliver res)
                else
                  (emit [Set_error (Some (or_else (rd_error res) ''Task completed with errors'')),
                         Set_loading False] (received st),
                   Fail (or_else (rd_error res) ''Task completed with errors''))]
       \<and> delivered (snd (gen_poll srv taskId maxAttempts interval st)) =
           (\<exists>res. td_result taskData = Some res \<and> rd_success res)
       \<and> fb_cycles srv' taskId maxAttempts interval st' =
           [case td_result taskData' of
              None \<Rightarrow>
                (emit [Set_error (Some ''Task completed with errors'')] (received st'),
                 Fail ''Task completed with errors'')
            | Some res \<Rightarrow>
                if rd_success res
                then (emit (snd (handleFeedbackResponse res)) (received st'), Deliver res)
                else
                  (emit [Set_error (Some (or_else (rd_error res) ''Task completed with errors''))]
                     (received st'),
                   Fail (or_else (rd_error res) ''Task completed with errors''))]
       \<and> delivered (snd (fb_poll srv' taskId maxAttempts interval st')) =
           (\<exists>res. td_result taskData' = Some res \<and> rd_success res)"
proof -
  obtain g where g: "gen_on_reply (srv (answered st)) maxAttempts interval st = g"
      and g_eq: "g = (case td_result taskData of
              None \<Rightarrow>
                (emit [Set_error (Some ''Task completed with errors''), Set_loading False]
                   (received st),
                 Fail ''Task completed with errors'')
            | Some res \<Rightarrow>
                if rd_success res
                then (emit (handleArticleResponse res) (received st), Deliver res)
                else
                  (emit [Set_error (Some (or_else (rd_error res) ''Task completed with errors'')),
                         Set_loading False] (received st),
                   Fail (or_else (rd_error res) ''Task completed with errors'')))"
    using assms(1-4) by (simp add: gen_on_reply_def gen_fail_def split: option.splits)
  obtain f where f: "fb_on_reply (srv' (answered st')) maxAttempts interval st' = f"
      and f_eq: "f = (case td_result taskData' of
              None \<Rightarrow>
                (emit [Set_error (Some ''Task completed with errors'')] (received st'),
                 Fail ''Task completed with errors'')
            | Some res \<Rightarrow>
                if rd_success res
                then (emit (snd (handleFeedbackResponse res)) (received st'), Deliver res)
                else
                  (emit [Set_error (Some (or_else (rd_error res) ''Task completed with errors''))]
                     (received st'),
                   Fail (or_else (rd_error res) ''Task completed with errors'')))"
    using assms(5-8) by (simp add: fb_on_reply_def fb_fail_def split: option.splits)
  have g_stop: "snd g \<noteq> Reschedule"
    by (simp add: g_eq split: option.splits)
  have f_stop: "snd f \<noteq> Reschedule"
    by (simp add: f_eq split: option.splits)
  have gc: "gen_cycles srv taskId maxAttempts interval st = [g]"
    using gen_cycles_stop [where srv = srv and st = st and taskId = taskId
        and ?st1.0 = "fst g" and ex = "snd g"] g g_stop by simp
  have fc: "fb_cycles srv' taskId maxAttempts interval st' = [f]"
    using fb_cycles_stop [where srv = srv' and st = st' and taskId = taskId
        and ?st1.0 = "fst f" and ex = "snd f"] f f_stop by simp
  have gd: "delivered (snd g) = (\<exists>res. td_result taskData = Some res \<and> rd_success res)"
    by (simp add: g_eq split: option.splits)
  have fd: "delivered (snd f) = (\<exists>res. td_result taskData' = Some res \<and> rd_success res)"
    by (simp add: f_eq split: option.splits)
  show ?thesis
    using gd fd by (simp add: gc fc gen_poll_def fb_poll_def) (simp add: g_eq f_eq)
qed

text \<open>
  A finished task whose result reports failure gives the generation hook the result's
  error and no article; one whose result reports success is handed on by the feedback
  poller.
\<close>

theorem completed_status_inspects_result_witness:
  "gen_cycles (replies [] (completed_reply (sample_result False (Some ''quota exceeded''))))
      ''t1'' 60 3000 (poll_start ''t1'' []) =
     [(\<lparr>attempts = 0, answered = 1,
        trace = [Call (Get_status ''t1''), Set_error (Some ''quota exceeded''),
                 Set_loading False]\<rparr>,
       Fail ''quota exceeded'')]
   \<and> \<not> delivered (snd (gen_poll
        (replies [] (completed_reply (sample_result False (Some ''quota exceeded''))))
        ''t1'' 60 3000 (poll_start ''t1'' [])))
   \<and> fb_cycles (replies [] (completed_reply (sample_result True None)))
      ''t1'' 60 3000 (poll_start ''t1'' []) =
     [(\<lparr>attempts = 0, answered = 1, trace = [Call (Get_status ''t1'')]\<rparr>,
       Deliver (sample_result True None))]
   \<and> delivered (snd (fb_poll (replies [] (completed_reply (sample_result True None)))
        ''t1'' 60 3000 (poll_start ''t1'' [])))"
  using completed_status_inspects_result
    [where srv = "replies [] (completed_reply (sample_result False (Some ''quota exceeded'')))"
       and st = "poll_start ''t1'' []"
       and env = "\<lparr>env_success = True, env_message = None,
            env_data = Some \<lparr>td_status = ''completed'',
              td_result = Some (sample_result False (Some ''quota exceeded'')),
              td_error = None\<rparr>\<rparr>"
       and taskData = "\<lparr>td_status = ''completed'',
              td_result = Some (sample_result False (Some ''quota exceeded'')),
              td_error = None\<rparr>"
       and srv' = "replies [] (completed_reply (sample_result True None))"
       and st' = "poll_start ''t1'' []"
       and env' = "\<lparr>env_success = True, env_message = None,
            env_data = Some \<lparr>td_status = ''completed'',
              td_result = Some (sample_result True None), td_error = None\<rparr>\<rparr>"
       and taskData' = "\<lparr>td_status = ''completed'',
              td_result = Some (sample_result True None), td_error = None\<rparr>"
       and taskId = "''t1''" and maxAttempts = 60 and interval = 3000]
  by (simp add: replies_def completed_reply_def poll_start_def poll_issue_def emit_def
      received_def or_else_def handleFeedbackResponse_def sample_result_def truthy_def)

section \<open>Transport errors, unknown statuses and tasks still at work\<close>

lemma gen_retry_cycles:
  assumes "gen_on_reply (srv (answered st)) maxAttempts interval st =
             gen_retry maxAttempts interval msg (received st)"
  shows "gen_cycles srv taskId maxAttempts interval st =
           (if Suc (attempts st) < maxAttempts
            then (st\<lparr>attempts := Suc (attempts st), answered := Suc (answered st),
                      trace := trace st @ [Timer interval]\<rparr>, Reschedule) #
                 gen_cycles srv taskId maxAttempts interval
                   (st\<lparr>attempts := Suc (attempts st), answered := Suc (answered st),
                       trace := trace st @ [Timer interval, Call (Get_status taskId)]\<rparr>)
            else [(st\<lparr>attempts := Suc (attempts st), answered := Suc (answered st),
                       trace := trace st @ [Set_error (Some msg), Set_loading False]\<rparr>,
                   Fail msg)])"
proof (cases "Suc (attempts st) < maxAttempts")
  case True
  then have "gen_on_reply (srv (answered st)) maxAttempts interval st =
      (st\<lparr>attempts := Suc (attempts st), answered := Suc (answered st),
           trace := trace st @ [Timer interval]\<rparr>, Reschedule)"
    using assms by (simp add: gen_retry_def received_def emit_def)
  from gen_cycles_again [where srv = srv and st = st and taskId = taskId, OF this] True
  show ?thesis
    by (simp add: poll_issue_def emit_def)
next
  case False
  then have "gen_on_reply (srv (answered st)) maxAttempts interval st =
      (st\<lparr>attempts := Suc (attempts st), answered := Suc (answered st),
           trace := trace st @ [Set_error (Some msg), Set_loading False]\<rparr>, Fail msg)"
    using assms by (simp add: gen_retry_def received_def emit_def)
  from gen_cycles_stop [where srv = srv and st = st and taskId = taskId, OF this] False
  show ?thesis
    by simp
qed

text \<open>
  Claim C2, as the code has it. In the generation poller a status query that throws
  increments the attempt counter; while the counter is below \<open>maxAttempts\<close> the next cycle
  is scheduled with \<^verbatim>\<open>setTimeout(poll, interval)\<close> and issues the next query, and only at
  exhaustion does the run fail, with ``Failed to check task status - please try again''.
  The feedback poller does not retry: its \<^verbatim>\<open>catch\<close> sets the error and rejects with the
  error it caught, whatever the counter says.
\<close>

theorem transport_error_retry_generation_only:
  assumes "srv (answered st) = Threw err" and "srv' (answered st') = Threw err'"
  shows "gen_cycles srv taskId maxAttempts interval st =
           (if Suc (attempts st) < maxAttempts
            then (st\<lparr>attempts := Suc (attempts st), answered := Suc (answered st),
                      trace := trace st @ [Timer interval]\<rparr>, Reschedule) #
                 gen_cycles srv taskId maxAttempts interval
                   (st\<lparr>attempts := Suc (attempts st), answered := Suc (answered st),
                       trace := trace st @ [Timer interval, Call (Get_status taskId)]\<rparr>)
            else [(st\<lparr>attempts := Suc (attempts st), answered := Suc (answered st),
                       trace := trace st @
                         [Set_error (Some ''Failed to check task status - please try again''),
                          Set_loading False]\<rparr>,
                   Fail ''Failed to check task status - please try again'')])
       \<and> fb_cycles srv' taskId maxAttempts interval st' =
           [(st'\<lparr>answered := Suc (answered st'),
                 trace := trace st' @
                   [Set_error (Some (or_else
                      (case err_response_data err' of None \<Rightarrow> None | Some d \<Rightarrow> ed_message d)
                      ''Failed to check task status''))]\<rparr>,
             Rethrow err')]"
proof -
  have "gen_on_reply (srv (answered st)) maxAttempts interval st =
          gen_retry maxAttempts interval gen_unreachable_msg (received st)"
    using assms(1) by (simp add: gen_on_reply_def)
  from gen_retry_cycles [where srv = srv and st = st and taskId = taskId, OF this]
  have g: "gen_cycles srv taskId maxAttempts interval st =
           (if Suc (attempts st) < maxAttempts
            then (st\<lparr>attempts := Suc (attempts st), answered := Suc (answered st),
                      trace := trace st @ [Timer interval]\<rparr>, Reschedule) #
                 gen_cycles srv taskId maxAttempts interval
                   (st\<lparr>attempts := Suc (attempts st), answered := Suc (answered st),
                       trace := trace st @ [Timer interval, Call (Get_status taskId)]\<rparr>)
            else [(st\<lparr>attempts := Suc (attempts st), answered := Suc (answered st),
                       trace := trace st @
                         [Set_error (Some ''Failed to check task status - please try again''),
                          Set_loading False]\<rparr>,
                   Fail ''Failed to check task status - please try again'')])"
    by (simp add: gen_unreachable_msg_def)
  have "fb_on_reply (srv' (answered st')) maxAttempts interval st' =
      (st'\<lparr>answered := Suc (answered st'),
           trace := trace st' @
             [Set_error (Some (or_else
                (case err_response_data err' of None \<Rightarrow> None | Some d \<Rightarrow> ed_message d)
                ''Failed to check task status''))]\<rparr>,
       Rethrow err')"
    using assms(2) by (simp add: fb_on_reply_def fb_caught_def received_def emit_def)
  from fb_cycles_stop [where srv = srv' and st = st' and taskId = taskId, OF this]
  have f: "fb_cycles srv' taskId maxAttempts interval st' =
           [(st'\<lparr>answered := Suc (answered st'),
                 trace := trace st' @
                   [Set_error (Some (or_else
                      (case err_response_data err' of None \<Rightarrow> None | Some d \<Rightarrow> ed_message d)
                      ''Failed to check task status''))]\<rparr>,
             Rethrow err')]"
    by simp
  from g f show ?thesis
    by (rule conjI)
qed

text \<open>
  A first query that throws, then a finished task: the generation poller schedules the
  second query after 3000 ms and delivers; the feedback poller has already given up.
\<close>

theorem transport_error_retry_generation_only_witness:
  "map snd (gen_cycles (replies [Threw network_error] (completed_reply (sample_result True None)))
      ''t1'' 60 3000 (poll_start ''t1'' [])) = [Reschedule, Deliver (sample_result True None)]
   \<and> map (\<lambda>c. attempts (fst c))
       (gen_cycles (replies [Threw network_error] (completed_reply (sample_result True None)))
          ''t1'' 60 3000 (poll_start ''t1'' [])) = [1, 1]
   \<and> filter (\<lambda>e. is_timer e \<or> is_query e)
       (trace (fst (gen_poll (replies [Threw network_error] (completed_reply (sample_result True None)))
          ''t1'' 60 3000 (poll_start ''t1'' [])))) =
       [Call (Get_status ''t1''), Timer 3000, Call (Get_status ''t1'')]
   \<and> fb_cycles (replies [Threw network_error] (completed_reply (sample_result True None)))
        ''t1'' 60 3000 (poll_start ''t1'' []) =
       [(\<lparr>attempts = 0, answered = 1,
          trace = [Call (Get_status ''t1''), Set_error (Some ''Failed to check task status'')]\<rparr>,
         Rethrow network_error)]"
  using transport_error_retry_generation_only
    [where srv = "replies [Threw network_error] (completed_reply (sample_result True None))"
       and st = "poll_start ''t1'' []" and err = network_error
       and srv' = "replies [Threw network_error] (completed_reply (sample_result True None))"
       and st' = "poll_start ''t1'' []" and err' = network_error
       and taskId = "''t1''" and maxAttempts = 60 and interval = 3000]
  by (simp add: run_eval completed_reply_def handleArticleResponse_def sample_result_def
      network_error_def or_else_def)

text \<open>
  The claim as the specification states it, for every poll run of either kind, fails on
  the feedback poller: with all 15 attempts left, one query that throws ends the run. The
  counter is still 0, no timer was set and only one query was made.
\<close>

theorem feedback_transport_error_counterexample:
  "fb_poll (replies [Threw network_error] (completed_reply (sample_result True None)))
      ''t1'' 15 2000 (poll_start ''t1'' []) =
     (\<lparr>attempts = 0, answered = 1,
       trace = [Call (Get_status ''t1''), Set_error (Some ''Failed to check task status'')]\<rparr>,
      Rethrow network_error)
   \<and> queries (trace (fst (fb_poll
        (replies [Threw network_error] (completed_reply (sample_result True None)))
        ''t1'' 15 2000 (poll_start ''t1'' [])))) = 1
   \<and> filter is_timer (trace (fst (fb_poll
        (replies [Threw network_error] (completed_reply (sample_result True None)))
        ''t1'' 15 2000 (poll_start ''t1'' [])))) = []"
  by (simp add: run_eval completed_reply_def network_error_def or_else_def)

text \<open>
  Claim C3, as the code has it. A status string that is none of ``completed'',
  ``failed'', ``processing'' and ``pending'' makes the generation poller count an attempt
  and poll on while the counter is below \<open>maxAttempts\<close>, as for a task at work; at
  exhaustion the message is ``Unknown task status - please try again''. The feedback
  poller ends the run at once with ``Unknown task status: '' followed by the status.
\<close>

theorem unknown_status_retry_generation_only:
  assumes "srv (answered st) = Responded env" and "env_success env"
    and "env_data env = Some taskData"
    and "td_status taskData \<notin> {''completed'', ''failed'', ''processing'', ''pending''}"
    and "srv' (answered st') = Responded env'" and "env_success env'"
    and "env_data env' = Some taskData'"
    and "td_status taskData' \<notin> {''completed'', ''failed'', ''processing'', ''pending''}"
  shows "gen_cycles srv taskId maxAttempts interval st =
           (if Suc (attempts st) < maxAttempts
            then (st\<lparr>attempts := Suc (attempts st), answered := Suc (answered st),
                      trace := trace st @ [Timer interval]\<rparr>, Reschedule) #
                 gen_cycles srv taskId maxAttempts interval
                   (st\<lparr>attempts := Suc (attempts st), answered := Suc (answered st),
                       trace := trace st @ [Timer interval, Call (Get_status taskId)]\<rparr>)
            else [(st\<lparr>attempts := Suc (attempts st), answered := Suc (answered st),
                       trace := trace st @
                         [Set_error (Some ''Unknown task status - please try again''),
                          Set_loading False]\<rparr>,
                   Fail ''Unknown task status - please try again'')])
       \<and> fb_cycles srv' taskId maxAttempts interval st' =
           [(st'\<lparr>answered := Suc (answered st'),
                 trace := trace st' @
                   [Set_error (Some (''Unknown task status: '' @ td_status taskData'))]\<rparr>,
             Fail (''Unknown task status: '' @ td_status taskData'))]"
proof -
  have "gen_on_reply (srv (answered st)) maxAttempts interval st =
          gen_retry maxAttempts interval gen_unknown_msg (received st)"
    using assms(1-4) by (simp add: gen_on_reply_def)
  from gen_retry_cycles [where srv = srv and st = st and taskId = taskId, OF this]
  have g: "gen_cycles srv taskId maxAttempts interval st =
           (if Suc (attempts st) < maxAttempts
            then (st\<lparr>attempts := Suc (attempts st), answered := Suc (answered st),
                      trace := trace st @ [Timer interval]\<rparr>, Reschedule) #
                 gen_cycles srv taskId maxAttempts interval
                   (st\<lparr>attempts := Suc (attempts st), answered := Suc (answered st),
                       trace := trace st @ [Timer interval, Call (Get_status taskId)]\<rparr>)
            else [(st\<lparr>attempts := Suc (attempts st), answered := Suc (answered st),
                       trace := trace st @
                         [Set_error (Some ''Unknown task status - please try again''),
                          Set_loading False]\<rparr>,
                   Fail ''Unknown task status - please try again'')])"
    by (simp add: gen_unknown_msg_def)
  have "fb_on_reply (srv' (answered st')) maxAttempts interval st' =
      (st'\<lparr>answered := Suc (answered st'),
           trace := trace st' @
             [Set_error (Some (''Unknown task status: '' @ td_status taskData'))]\<rparr>,
       Fail (''Unknown task status: '' @ td_status taskData'))"
    using assms(5-8) by (simp add: fb_on_reply_def fb_fail_def received_def emit_def)
  from fb_cycles_stop [where srv = srv' and st = st' and taskId = taskId, OF this]
  have f: "fb_cycles srv' taskId maxAttempts interval st' =
           [(st'\<lparr>answered := Suc (answered st'),
                 trace := trace st' @
                   [Set_error (Some (''Unknown task status: '' @ td_status taskData'))]\<rparr>,
             Fail (''Unknown task status: '' @ td_status taskData'))]"
    by simp
  from g f show ?thesis
    by (rule conjI)
qed

text \<open>
  A status ``queued'' first, then a finished task: the generation poller polls on and
  delivers with its second query; the feedback poller stops at the first reply.
\<close>

theorem unknown_status_retry_generation_only_witness:
  "map snd (gen_cycles (replies [status_reply ''queued''] (completed_reply (sample_result True None)))
      ''t1'' 60 3000 (poll_start ''t1'' [])) = [Reschedule, Deliver (sample_result True None)]
   \<and> map (\<lambda>c. attempts (fst c))
       (gen_cycles (replies [status_reply ''queued''] (completed_reply (sample_result True None)))
          ''t1'' 60 3000 (poll_start ''t1'' [])) = [1, 1]
   \<and> map snd (gen_cycles (replies [] (status_reply ''queued'' :: unit task_data reply))
      ''t1'' 2 3000 (poll_start ''t1'' [])) =
       [Reschedule, Fail ''Unknown task status - please try again'']
   \<and> fb_cycles (replies [status_reply ''queued''] (completed_reply (sample_result True None)))
        ''t1'' 60 3000 (poll_start ''t1'' []) =
       [(\<lparr>attempts = 0, answered = 1,
          trace = [Call (Get_status ''t1''), Set_error (Some ''Unknown task status: queued'')]\<rparr>,
         Fail ''Unknown task status: queued'')]"
  using unknown_status_retry_generation_only
    [where srv = "replies [status_reply ''queued''] (completed_reply (sample_result True None))"
       and st = "poll_start ''t1'' []"
       and env = "\<lparr>env_success = True, env_message = None,
            env_data = Some \<lparr>td_status = ''queued'', td_result = None, td_error = None\<rparr>\<rparr>"
       and taskData = "\<lparr>td_status = ''queued'', td_result = None, td_error = None\<rparr>"
       and srv' = "replies [status_reply ''queued''] (completed_reply (sample_result True None))"
       and st' = "poll_start ''t1'' []"
       and env' = "\<lparr>env_success = True, env_message = None,
            env_data = Some \<lparr>td_status = ''queued'', td_result = None, td_error = None\<rparr>\<rparr>"
       and taskData' = "\<lparr>td_status = ''queued'', td_result = None, td_error = None\<rparr>"
       and taskId = "''t1''" and maxAttempts = 60 and interval = 3000]
  by (simp add: run_eval completed_reply_def handleArticleResponse_def sample_result_def
      gen_unknown_msg_def)

text \<open>
  The claim as the specification states it fails on the feedback poller: an unrecognized
  status ends the run with a failure after one query, the counter still 0 and no timer
  set, although 15 attempts were left.
\<close>

theorem feedback_unknown_status_counterexample:
  "fb_poll (replies [status_reply ''queued''] (completed_reply (sample_result True None)))
      ''t1'' 15 2000 (poll_start ''t1'' []) =
     (\<lparr>attempts = 0, answered = 1,
       trace = [Call (Get_status ''t1''), Set_error (Some ''Unknown task status: queued'')]\<rparr>,
      Fail ''Unknown task status: queued'')
   \<and> queries (trace (fst (fb_poll
        (replies [status_reply ''queued''] (completed_reply (sample_result True None)))
        ''t1'' 15 2000 (poll_start ''t1'' [])))) = 1
   \<and> filter is_timer (trace (fst (fb_poll
        (replies [status_reply ''queued''] (completed_reply (sample_result True None)))
        ''t1'' 15 2000 (poll_start ''t1'' [])))) = []"
  by (simp add: run_eval completed_reply_def)

text \<open>
  A task at work: in the generation poller the statuses ``processing'' and ``pending'',
  in the feedback poller the status ``processing'', count an attempt; while the counter
  is below \<open>maxAttempts\<close> the next cycle is scheduled, and at exhaustion the run fails
  with the poller's own time-out message, which is not read from the reply and so is not
  the failure a failed task reports.
\<close>

lemma task_at_work_polls_on:
  assumes "srv (answered st) = Responded env" and "env_success env"
    and "env_data env = Some taskData"
    and "td_status taskData = ''processing'' \<or> td_status taskData = ''pending''"
    and "srv' (answered st') = Responded env'" and "env_success env'"
    and "env_data env' = Some taskData'" and "td_status taskData' = ''processing''"
  shows "gen_cycles srv taskId maxAttempts interval st =
           (if Suc (attempts st) < maxAttempts
            then (st\<lparr>attempts := Suc (attempts st), answered := Suc (answered st),
                      trace := trace st @ [Timer interval]\<rparr>, Reschedule) #
                 gen_cycles srv taskId maxAttempts interval
                   (st\<lparr>attempts := Suc (attempts st), answered := Suc (answered st),
                       trace := trace st @ [Timer interval, Call (Get_status taskId)]\<rparr>)
            else [(st\<lparr>attempts := Suc (attempts st), answered := Suc (answered st),
                       trace := trace st @ [Set_error (Some gen_timeout_msg), Set_loading False]\<rparr>,
                   Fail gen_timeout_msg)])
       \<and> fb_cycles srv' taskId maxAttempts interval st' =
           (if Suc (attempts st') < maxAttempts
            then (st'\<lparr>attempts := Suc (attempts st'), answered := Suc (answered st'),
                      trace := trace st' @ [Timer interval]\<rparr>, Reschedule) #
                 fb_cycles srv' taskId maxAttempts interval
                   (st'\<lparr>attempts := Suc (attempts st'), answered := Suc (answered st'),
                       trace := trace st' @ [Timer interval, Call (Get_status taskId)]\<rparr>)
            else [(st'\<lparr>attempts := Suc (attempts st'), answered := Suc (answered st'),
                       trace := trace st' @ [Set_error (Some fb_timeout_msg)]\<rparr>,
                   Fail fb_timeout_msg)])"
proof -
  have "gen_on_reply (srv (answered st)) maxAttempts interval st =
          gen_retry maxAttempts interval gen_timeout_msg (received st)"
    using assms(1-4) by (auto simp: gen_on_reply_def)
  from gen_retry_cycles [where srv = srv and st = st and taskId = taskId, OF this]
  have g: "gen_cycles srv taskId maxAttempts interval st =
           (if Suc (attempts st) < maxAttempts
            then (st\<lparr>attempts := Suc (attempts st), answered := Suc (answered st),
                      trace := trace st @ [Timer interval]\<rparr>, Reschedule) #
                 gen_cycles srv taskId maxAttempts interval
                   (st\<lparr>attempts := Suc (attempts st), answered := Suc (answered st),
                       trace := trace st @ [Timer interval, Call (Get_status taskId)]\<rparr>)
            else [(st\<lparr>attempts := Suc (attempts st), answered := Suc (answered st),
                       trace := trace st @ [Set_error (Some gen_timeout_msg), Set_loading False]\<rparr>,
                   Fail gen_timeout_msg)])" .
  have f: "fb_cycles srv' taskId maxAttempts interval st' =
           (if Suc (attempts st') < maxAttempts
            then (st'\<lparr>attempts := Suc (attempts st'), answered := Suc (answered st'),
                      trace := trace st' @ [Timer interval]\<rparr>, Reschedule) #
                 fb_cycles srv' taskId maxAttempts interval
                   (st'\<lparr>attempts := Suc (attempts st'), answered := Suc (answered st'),
                       trace := trace st' @ [Timer interval, Call (Get_status taskId)]\<rparr>)
            else [(st'\<lparr>attempts := Suc (attempts st'), answered := Suc (answered st'),
                       trace := trace st' @ [Set_error (Some fb_timeout_msg)]\<rparr>,
                   Fail fb_timeout_msg)])"
  proof (cases "Suc (attempts st') < maxAttempts")
    case True
    then have "fb_on_reply (srv' (answered st')) maxAttempts interval st' =
        (st'\<lparr>attempts := Suc (attempts st'), answered := Suc (answered st'),
             trace := trace st' @ [Timer interval]\<rparr>, Reschedule)"
      using assms(5-8) by (simp add: fb_on_reply_def received_def emit_def)
    from fb_cycles_again [where srv = srv' and st = st' and taskId = taskId, OF this] True
    show ?thesis
      by (simp add: poll_issue_def emit_def)
  next
    case False
    then have "fb_on_reply (srv' (answered st')) maxAttempts interval st' =
        (st'\<lparr>attempts := Suc (attempts st'), answered := Suc (answered st'),
             trace := trace st' @ [Set_error (Some fb_timeout_msg)]\<rparr>, Fail fb_timeout_msg)"
      using assms(5-8) by (simp add: fb_on_reply_def fb_fail_def received_def emit_def)
    from fb_cycles_stop [where srv = srv' and st = st' and taskId = taskId, OF this] False
    show ?thesis
      by simp
  qed
  from g f show ?thesis
    by (rule conjI)
qed

text \<open>
  Claim C4 says that a status ``processing'' or ``pending'' counts an attempt and
  schedules another cycle while attempts remain, in either poller. The feedback poller
  has no branch for ``pending'', which the generation poller treats as a task at work:
  there the status falls into the branch for unknown statuses and the run is rejected at
  the first reply, with 15 attempts left, the counter still 0 and no next cycle. On the
  same replies the generation poller polls until its budget (here 3) is spent and then
  fails with its time-out message.
\<close>

theorem feedback_pending_status_rejected:
  "fb_poll (replies [] (status_reply ''pending'' :: unit task_data reply))
      ''t1'' 15 2000 (poll_start ''t1'' []) =
     (\<lparr>attempts = 0, answered = 1,
       trace = [Call (Get_status ''t1''), Set_error (Some ''Unknown task status: pending'')]\<rparr>,
      Fail ''Unknown task status: pending'')
   \<and> map snd (gen_cycles (replies [] (status_reply ''pending'' :: unit task_data reply))
        ''t1'' 3 3000 (poll_start ''t1'' [])) =
       [Reschedule, Reschedule, Fail gen_timeout_msg]"
  by (simp add: run_eval)

section \<open>Submission: validation and the asynchronous hint\<close>

lemma trim_Nil [simp]: "trim [] = []"
  by (simp add: trim_def)

text \<open>A text trims to the empty string exactly when all its code units are white space.\<close>

lemma trim_empty_iff: "trim s = [] \<longleftrightarrow> list_all is_space s"
proof
  assume "trim s = []"
  then have a: "\<forall>x\<in>set (dropWhile is_space s). is_space x"
    by (simp add: trim_def)
  have "dropWhile is_space s = []"
  proof (rule ccontr)
    assume n: "dropWhile is_space s \<noteq> []"
    then have "\<not> is_space (hd (dropWhile is_space s))"
      by (rule hd_dropWhile)
    moreover have "hd (dropWhile is_space s) \<in> set (dropWhile is_space s)"
      using n by simp
    ultimately show False
      using a by blast
  qed
  then show "list_all is_space s"
    by (simp add: list_all_iff)
next
  assume "list_all is_space s"
  then have "dropWhile is_space s = []"
    by (simp add: list_all_iff)
  then show "trim s = []"
    by (simp add: trim_def del: dropWhile_eq_Nil_conv)
qed

text \<open>
  Claim C6. The required fields are checked by the form handlers that call the hooks.
  A source reference that is empty, or that consists of white space only, makes the
  request form set ``Please enter a valid URL'' and return before \<^verbatim>\<open>requestArticle\<close> is
  called; an article identifier that is missing or empty, or a revision text that is
  empty or white space only, makes the feedback dialog set ``Article ID and feedback text
  are required'' and return before \<^verbatim>\<open>sendFeedback\<close> is called. Neither timeline has a
  network call. These are all the inputs the two handlers turn away.
\<close>

theorem invalid_input_makes_no_network_call:
  assumes "list_all is_space rawContent"
    and "\<not> truthy articleId \<or> list_all is_space feedbackText"
  shows "handleSubmit rawContent instruction r srv = [Set_error (Some ''Please enter a valid URL'')]
       \<and> network_calls (handleSubmit rawContent instruction r srv) = 0
       \<and> feedback_handleSubmit articleId sect feedbackText r' srv' =
           [Set_error (Some ''Article ID and feedback text are required'')]
       \<and> network_calls (feedback_handleSubmit articleId sect feedbackText r' srv') = 0"
  using assms
  by (auto simp: handleSubmit_def feedback_handleSubmit_def network_calls_def trim_empty_iff)

text \<open>
  An empty URL, and a feedback with an article identifier and an empty text (scenario B
  of the specification); a URL of a no-break space, a space, a byte order mark, an
  ideographic space and a tab, and a feedback with a text and no article identifier; a
  URL that is a line separator, and a feedback whose text is a no-break space and a line
  feed; a feedback whose article identifier is the empty string.
\<close>

theorem invalid_input_makes_no_network_call_witness:
  "handleSubmit [] (ascii ''make it short'') (Threw network_error)
       (replies [] (Threw network_error)) =
     ([Set_error (Some ''Please enter a valid URL'')] :: unit gen_article event list)
   \<and> network_calls (feedback_handleSubmit (Some ''a1'') ''headline'' []
        (Threw network_error) (replies [] (Threw network_error))
        :: unit fb_article event list) = 0
   \<and> network_calls (handleSubmit [0x00A0, 0x0020, 0xFEFF, 0x3000, 0x0009] []
        (Threw network_error) (replies [] (Threw network_error))
        :: unit gen_article event list) = 0
   \<and> network_calls (feedback_handleSubmit None ''headline'' (ascii ''Shorter title'')
        (Threw network_error) (replies [] (Threw network_error))
        :: unit fb_article event list) = 0
   \<and> network_calls (handleSubmit [0x2028] []
        (Threw network_error) (replies [] (Threw network_error))
        :: unit gen_article event list) = 0
   \<and> network_calls (feedback_handleSubmit (Some ''a1'') ''headline'' [0x00A0, 0x000A]
        (Threw network_error) (replies [] (Threw network_error))
        :: unit fb_article event list) = 0
   \<and> network_calls (feedback_handleSubmit (Some []) ''headline'' (ascii ''Shorter title'')
        (Threw network_error) (replies [] (Threw network_error))
        :: unit fb_article event list) = 0"
proof -
  have a: "handleSubmit [] (ascii ''make it short'') (Threw network_error)
         (replies [] (Threw network_error)) =
       ([Set_error (Some ''Please enter a valid URL'')] :: unit gen_article event list)
     \<and> network_calls (handleSubmit [] (ascii ''make it short'') (Threw network_error)
         (replies [] (Threw network_error)) :: unit gen_article event list) = 0
     \<and> feedback_handleSubmit (Some ''a1'') ''headline'' []
         (Threw network_error) (replies [] (Threw network_error)) =
       ([Set_error (Some ''Article ID and feedback text are required'')]
          :: unit fb_article event list)
     \<and> network_calls (feedback_handleSubmit (Some ''a1'') ''headline'' []
         (Threw network_error) (replies [] (Threw network_error))
         :: unit fb_article event list) = 0"
    by (rule invalid_input_makes_no_network_call) (simp_all add: truthy_def)
  have b: "handleSubmit [0x00A0, 0x0020, 0xFEFF, 0x3000, 0x0009] [] (Threw network_error)
         (replies [] (Threw network_error)) =
       ([Set_error (Some ''Please enter a valid URL'')] :: unit gen_article event list)
     \<and> network_calls (handleSubmit [0x00A0, 0x0020, 0xFEFF, 0x3000, 0x0009] []
         (Threw network_error) (replies [] (Threw network_error))
         :: unit gen_article event list) = 0
     \<and> feedback_handleSubmit None ''headline'' (ascii ''Shorter title'')
         (Threw network_error) (replies [] (Threw network_error)) =
       ([Set_error (Some ''Article ID and feedback text are required'')]
          :: unit fb_article event list)
     \<and> network_calls (feedback_handleSubmit None ''headline'' (ascii ''Shorter title'')
         (Threw network_error) (replies [] (Threw network_error))
         :: unit fb_article event list) = 0"
    by (rule invalid_input_makes_no_network_call) (simp_all add: truthy_def is_space_def)
  have c: "handleSubmit [0x2028] [] (Threw network_error)
         (replies [] (Threw network_error)) =
       ([Set_error (Some ''Please enter a valid URL'')] :: unit gen_article event list)
     \<and> network_calls (handleSubmit [0x2028] []
         (Threw network_error) (replies [] (Threw network_error))
         :: unit gen_article event list) = 0
     \<and> feedback_handleSubmit (Some ''a1'') ''headline'' [0x00A0, 0x000A]
         (Threw network_error) (replies [] (Threw network_error)) =
       ([Set_error (Some ''Article ID and feedback text are required'')]
          :: unit fb_article event list)
     \<and> network_calls (feedback_handleSubmit (Some ''a1'') ''headline'' [0x00A0, 0x000A]
         (Threw network_error) (replies [] (Threw network_error))
         :: unit fb_article event list) = 0"
    by (rule invalid_input_makes_no_network_call) (simp_all add: truthy_def is_space_def)
  have d: "handleSubmit [] [] (Threw network_error)
         (replies [] (Threw network_error)) =
       ([Set_error (Some ''Please enter a valid URL'')] :: unit gen_article event list)
     \<and> network_calls (handleSubmit [] []
         (Threw network_error) (replies [] (Threw network_error))
         :: unit gen_article event list) = 0
     \<and> feedback_handleSubmit (Some []) ''headline'' (ascii ''Shorter title'')
         (Threw network_error) (replies [] (Threw network_error)) =
       ([Set_error (Some ''Article ID and feedback text are required'')]
          :: unit fb_article event list)
     \<and> network_calls (feedback_handleSubmit (Some []) ''headline'' (ascii ''Shorter title'')
         (Threw network_error) (replies [] (Threw network_error))
         :: unit fb_article event list) = 0"
    by (rule invalid_input_makes_no_network_call) (simp_all add: truthy_def)
  from a b c d show ?thesis
    by (simp add: network_calls_def)
qed

lemma or_else_Some_Nil: "or_else (Some t) [] = t"
  by (simp add: or_else_def)

text \<open>
  Every other input passes the validation: the handler goes on and the hook posts the
  trimmed text.
\<close>

lemma valid_input_is_posted:
  "\<not> list_all is_space rawContent \<Longrightarrow>
     filter is_call (take 5 (handleSubmit rawContent instruction r srv)) =
       [Call (Post_generate
          \<lparr>gp_input_type = ''url'', gp_input_value = trim rawContent,
           gp_instruction = trim instruction, gp_force_refresh = False, gp_async = True\<rparr>)]"
  "truthy articleId \<Longrightarrow> \<not> list_all is_space feedbackText \<Longrightarrow>
     filter is_call (take 5 (feedback_handleSubmit articleId sect feedbackText r' srv')) =
       [Call (Post_feedback (fb_payload_of articleId sect (trim feedbackText)))]"
  by (simp_all add: handleSubmit_def feedback_handleSubmit_def trim_empty_iff
      requestArticle_begin_def gen_payload_of_def or_else_Some_Nil
      sendFeedback_def sendFeedback_begin_def Let_def)

text \<open>
  The hooks themselves do not validate: called directly with an empty text,
  \<^verbatim>\<open>sendFeedback\<close> posts it.
\<close>

lemma sendFeedback_posts_unvalidated:
  "take 3 (sendFeedback r srv articleId sect []) =
     [Set_loading True, Set_error None,
      Call (Post_feedback (fb_payload_of articleId sect []))]"
  by (simp add: sendFeedback_def sendFeedback_begin_def)

text \<open>
  Claim C9, as the code has it. A generation submission asks for asynchronous execution
  unless the caller passes \<^verbatim>\<open>async: false\<close> (the hint defaults to true). A feedback
  submission always sends \<^verbatim>\<open>async_processing: false\<close>: it asks for synchronous
  execution, and the caller cannot choose.
\<close>

theorem async_hint_of_submissions:
  "filter is_call (requestArticle_begin requestData) = [Call (Post_generate (gen_payload_of requestData))]
   \<and> gp_async (gen_payload_of requestData) = (rq_async requestData \<noteq> Some False)
   \<and> filter is_call (sendFeedback_begin articleId section feedbackText) =
       [Call (Post_feedback (fb_payload_of articleId section feedbackText))]
   \<and> fp_async_processing (fb_payload_of articleId section feedbackText) = False"
  by (simp add: requestArticle_begin_def gen_payload_of_def sendFeedback_begin_def fb_payload_of_def)

theorem async_hint_of_submissions_witness:
  "gp_async (gen_payload_of \<lparr>rq_input_type = ''url'', rq_input_value = ascii ''https://example.org/a'',
      rq_instruction = None, rq_force_refresh = None, rq_async = None\<rparr>)
   \<and> \<not> gp_async (gen_payload_of \<lparr>rq_input_type = ''url'', rq_input_value = ascii ''https://example.org/a'',
      rq_instruction = None, rq_force_refresh = None, rq_async = Some False\<rparr>)
   \<and> \<not> fp_async_processing (fb_payload_of (Some ''a1'') ''project_details'' (ascii ''Name the contractor''))"
proof -
  have "filter is_call (requestArticle_begin
          \<lparr>rq_input_type = ''url'', rq_input_value = ascii ''https://example.org/a'',
           rq_instruction = None, rq_force_refresh = None, rq_async = None\<rparr>
          :: unit gen_article event list) =
        [Call (Post_generate (gen_payload_of
          \<lparr>rq_input_type = ''url'', rq_input_value = ascii ''https://example.org/a'',
           rq_instruction = None, rq_force_refresh = None, rq_async = None\<rparr>))]
      \<and> gp_async (gen_payload_of
          \<lparr>rq_input_type = ''url'', rq_input_value = ascii ''https://example.org/a'',
           rq_instruction = None, rq_force_refresh = None, rq_async = None\<rparr>) =
        (rq_async \<lparr>rq_input_type = ''url'', rq_input_value = ascii ''https://example.org/a'',
           rq_instruction = None, rq_force_refresh = None, rq_async = None\<rparr> \<noteq> Some False)
      \<and> filter is_call (sendFeedback_begin (Some ''a1'') ''project_details''
          (ascii ''Name the contractor'') :: unit fb_article event list) =
        [Call (Post_feedback (fb_payload_of (Some ''a1'') ''project_details''
          (ascii ''Name the contractor'')))]
      \<and> fp_async_processing (fb_payload_of (Some ''a1'') ''project_details''
          (ascii ''Name the contractor'')) = False"
    by (rule async_hint_of_submissions)
  moreover have "filter is_call (requestArticle_begin
          \<lparr>rq_input_type = ''url'', rq_input_value = ascii ''https://example.org/a'',
           rq_instruction = None, rq_force_refresh = None, rq_async = Some False\<rparr>
          :: unit gen_article event list) =
        [Call (Post_generate (gen_payload_of
          \<lparr>rq_input_type = ''url'', rq_input_value = ascii ''https://example.org/a'',
           rq_instruction = None, rq_force_refresh = None, rq_async = Some False\<rparr>))]
      \<and> gp_async (gen_payload_of
          \<lparr>rq_input_type = ''url'', rq_input_value = ascii ''https://example.org/a'',
           rq_instruction = None, rq_force_refresh = None, rq_async = Some False\<rparr>) =
        (rq_async \<lparr>rq_input_type = ''url'', rq_input_value = ascii ''https://example.org/a'',
           rq_instruction = None, rq_force_refresh = None, rq_async = Some False\<rparr> \<noteq> Some False)
      \<and> filter is_call (sendFeedback_begin (Some ''a1'') ''project_details''
          (ascii ''Name the contractor'') :: unit fb_article event list) =
        [Call (Post_feedback (fb_payload_of (Some ''a1'') ''project_details''
          (ascii ''Name the contractor'')))]
      \<and> fp_async_processing (fb_payload_of (Some ''a1'') ''project_details''
          (ascii ''Name the contractor'')) = False"
    by (rule async_hint_of_submissions)
  ultimately show ?thesis
    by simp
qed

text \<open>
  The claim as the specification states it fails for feedback: the request the hook
  posts carries \<^verbatim>\<open>async_processing: false\<close>.
\<close>

theorem feedback_async_hint_counterexample:
  "filter is_call (sendFeedback (Threw network_error) (replies [] (Threw network_error))
       (Some ''a1'') ''project_details'' (ascii ''Name the contractor'') :: unit fb_article event list) =
     [Call (Post_feedback \<lparr>fp_article_id = Some ''a1'',
        fp_feedback = (''details'', (ascii ''Name the contractor'')), fp_async_processing = False\<rparr>)]"
  by (simp add: sendFeedback_def sendFeedback_begin_def sendFeedback_rest_def
      sendFeedback_caught_def fb_payload_of_def sectionMapping_def)

section \<open>The timeline of a whole submission\<close>

lemma hook_step_quiet: "quiet e \<Longrightarrow> hook_step h e = h"
  by (cases e) (simp_all add: quiet_def)

lemma foldl_hook_step_quiet:
  "foldl hook_step h tr = foldl hook_step h (filter (\<lambda>e. \<not> quiet e) tr)"
  by (induction tr arbitrary: h) (simp_all add: hook_step_quiet)

lemma hook_after_quiet: "hook_after tr = hook_after (filter (\<lambda>e. \<not> quiet e) tr)"
  unfolding hook_after_def by (rule foldl_hook_step_quiet)

lemma gen_on_reply_trace:
  "gen_on_reply r maxAttempts interval st = (st', ex) \<Longrightarrow>
     trace st' = trace st @ (if ex = Reschedule then [Timer interval] else gen_finish ex) \<and>
     (ex = Reschedule \<or> gen_ended ex)"
  by (auto simp: gen_on_reply_def gen_fail_def gen_retry_def received_def emit_def Let_def
      split: reply.splits option.splits if_splits)

lemma fb_on_reply_trace:
  "fb_on_reply r maxAttempts interval st = (st', ex) \<Longrightarrow>
     trace st' = trace st @ (if ex = Reschedule then [Timer interval] else fb_finish ex)"
  by (auto simp: fb_on_reply_def fb_fail_def fb_caught_def received_def emit_def Let_def
      split: reply.splits option.splits if_splits)

lemma gen_poll_shape:
  "\<exists>mid. trace (fst (gen_poll srv taskId maxAttempts interval st)) =
          trace st @ mid @ gen_finish (snd (gen_poll srv taskId maxAttempts interval st)) \<and>
        list_all polling mid \<and> gen_ended (snd (gen_poll srv taskId maxAttempts interval st))"
proof (induction st rule: gen_run_induct [of srv maxAttempts interval _ taskId])
  case (stop st st' ex)
  from gen_on_reply_trace [OF stop(1)] stop(2)
  have "trace st' = trace st @ [] @ gen_finish ex" and "gen_ended ex"
    by simp_all
  moreover have "gen_poll srv taskId maxAttempts interval st = (st', ex)"
    using gen_cycles_stop [where srv = srv and st = st and taskId = taskId, OF stop(1) stop(2)]
    by (simp add: gen_poll_def)
  ultimately show ?case
    by (intro exI [of _ "[]"]) simp
next
  case (again st st')
  from gen_on_reply_trace [OF again(1)]
  have t: "trace (poll_issue taskId st') = trace st @ [Timer interval, Call (Get_status taskId)]"
    by (simp add: poll_issue_def emit_def)
  have p: "gen_poll srv taskId maxAttempts interval st =
           gen_poll srv taskId maxAttempts interval (poll_issue taskId st')"
    using gen_cycles_again [where srv = srv and st = st and taskId = taskId, OF again(1)]
    by (simp add: gen_poll_def)
  from again(2) obtain mid where
    m: "trace (fst (gen_poll srv taskId maxAttempts interval (poll_issue taskId st'))) =
          trace (poll_issue taskId st') @ mid @
          gen_finish (snd (gen_poll srv taskId maxAttempts interval (poll_issue taskId st')))"
      "list_all polling mid"
      "gen_ended (snd (gen_poll srv taskId maxAttempts interval (poll_issue taskId st')))"
    by blast
  have "trace (fst (gen_poll srv taskId maxAttempts interval st)) =
          trace st @ ([Timer interval, Call (Get_status taskId)] @ mid) @
          gen_finish (snd (gen_poll srv taskId maxAttempts interval st))"
    using m(1) t p by simp
  moreover have "list_all polling ([Timer interval, Call (Get_status taskId)] @ mid)"
    using m(2) by (simp add: polling_def)
  ultimately show ?case
    using m(3) p by (intro exI [of _ "[Timer interval, Call (Get_status taskId)] @ mid"]) simp
qed

lemma fb_poll_shape:
  "\<exists>mid. trace (fst (fb_poll srv taskId maxAttempts interval st)) =
          trace st @ mid @ fb_finish (snd (fb_poll srv taskId maxAttempts interval st)) \<and>
        list_all polling mid \<and> snd (fb_poll srv taskId maxAttempts interval st) \<noteq> Reschedule"
proof (induction st rule: fb_run_induct [of srv maxAttempts interval _ taskId])
  case (stop st st' ex)
  from fb_on_reply_trace [OF stop(1)] stop(2)
  have "trace st' = trace st @ [] @ fb_finish ex"
    by simp
  moreover have "fb_poll srv taskId maxAttempts interval st = (st', ex)"
    using fb_cycles_stop [where srv = srv and st = st and taskId = taskId, OF stop(1) stop(2)]
    by (simp add: fb_poll_def)
  ultimately show ?case
    using stop(2) by (intro exI [of _ "[]"]) simp
next
  case (again st st')
  from fb_on_reply_trace [OF again(1)]
  have t: "trace (poll_issue taskId st') = trace st @ [Timer interval, Call (Get_status taskId)]"
    by (simp add: poll_issue_def emit_def)
  have p: "fb_poll srv taskId maxAttempts interval st =
           fb_poll srv taskId maxAttempts interval (poll_issue taskId st')"
    using fb_cycles_again [where srv = srv and st = st and taskId = taskId, OF again(1)]
    by (simp add: fb_poll_def)
  from again(2) obtain mid where
    m: "trace (fst (fb_poll srv taskId maxAttempts interval (poll_issue taskId st'))) =
          trace (poll_issue taskId st') @ mid @
          fb_finish (snd (fb_poll srv taskId maxAttempts interval (poll_issue taskId st')))"
      "list_all polling mid"
      "snd (fb_poll srv taskId maxAttempts interval (poll_issue taskId st')) \<noteq> Reschedule"
    by blast
  have "trace (fst (fb_poll srv taskId maxAttempts interval st)) =
          trace st @ ([Timer interval, Call (Get_status taskId)] @ mid) @
          fb_finish (snd (fb_poll srv taskId maxAttempts interval st))"
    using m(1) t p by simp
  moreover have "list_all polling ([Timer interval, Call (Get_status taskId)] @ mid)"
    using m(2) by (simp add: polling_def)
  ultimately show ?case
    using m(3) p by (intro exI [of _ "[Timer interval, Call (Get_status taskId)] @ mid"]) simp
qed

lemma polling_quiet: "polling e \<Longrightarrow> quiet e"
  by (auto simp: polling_def quiet_def)

lemma filter_loud_polling: "list_all polling mid \<Longrightarrow> filter (\<lambda>e. \<not> quiet e) mid = []"
  by (induction mid) (simp_all add: polling_quiet)

lemma polling_not_returned: "polling e \<Longrightarrow> \<not> is_returned e"
  by (cases e) (simp_all add: polling_def)

lemma filter_returned_polling: "list_all polling mid \<Longrightarrow> filter is_returned mid = []"
  by (induction mid) (simp_all add: polling_not_returned)

lemma quiet_simps [simp]:
  "quiet (Call rq)" "quiet (Timer n)" "quiet (Returned v)"
  "\<not> quiet (Set_loading b)" "\<not> quiet (Set_error e)" "\<not> quiet (Set_article a)"
  "\<not> quiet (Set_submitted b)" "\<not> quiet (Set_success b)" "\<not> quiet (Feedback_applied x)"
  by (simp_all add: quiet_def)

lemma foldl_hook_step_polling: "list_all polling mid \<Longrightarrow> foldl hook_step h mid = h"
  by (induction mid arbitrary: h) (simp_all add: polling_quiet hook_step_quiet)

lemma gen_finish_outcome:
  "gen_ended ex \<Longrightarrow>
     (\<exists>a. gen_finish ex = [Set_article (Some a), Set_loading False]) \<or>
     (\<exists>m. gen_finish ex = [Set_error (Some m), Set_loading False])"
  by (cases ex) (simp_all add: handleArticleResponse_def split: option.splits)

lemma handleArticleResponse_outcome:
  "(\<exists>a. handleArticleResponse res = [Set_article (Some a), Set_loading False]) \<or>
   (\<exists>m. handleArticleResponse res = [Set_error (Some m), Set_loading False])"
  by (simp add: handleArticleResponse_def split: option.splits)

text \<open>
  What \<^verbatim>\<open>requestArticle\<close> does after the submission is out: its promise settles once,
  with no value, and the hook gets one outcome, an article or an error, followed by
  \<^verbatim>\<open>setLoading(false)\<close>.
\<close>

lemma requestArticle_rest_shape:
  "filter is_returned (requestArticle_rest r srv) = [Returned None] \<and>
   ((\<exists>a. filter (\<lambda>e. \<not> quiet e) (requestArticle_rest r srv) =
          [Set_article (Some a), Set_loading False]) \<or>
    (\<exists>m. filter (\<lambda>e. \<not> quiet e) (requestArticle_rest r srv) =
          [Set_error (Some m), Set_loading False]))"
proof -
  have polled: "filter is_returned
         (trace (fst (gen_poll srv taskId gen_maxAttempts gen_interval
            (emit [Returned None] (poll_start taskId []))))) = [Returned None] \<and>
       ((\<exists>a. filter (\<lambda>e. \<not> quiet e)
          (trace (fst (gen_poll srv taskId gen_maxAttempts gen_interval
            (emit [Returned None] (poll_start taskId []))))) =
          [Set_article (Some a), Set_loading False]) \<or>
        (\<exists>m. filter (\<lambda>e. \<not> quiet e)
          (trace (fst (gen_poll srv taskId gen_maxAttempts gen_interval
            (emit [Returned None] (poll_start taskId []))))) =
          [Set_error (Some m), Set_loading False]))" for taskId
  proof -
    define st0 :: "'a gen_article run_state"
      where "st0 = emit [Returned None] (poll_start taskId [])"
    define p where "p = gen_poll srv taskId gen_maxAttempts gen_interval st0"
    have t0: "trace st0 = [Call (Get_status taskId), Returned None]"
      by (simp add: st0_def poll_start_def poll_issue_def emit_def)
    obtain mid where m: "trace (fst p) = trace st0 @ mid @ gen_finish (snd p)"
        "list_all polling mid" "gen_ended (snd p)"
      using gen_poll_shape [of srv taskId gen_maxAttempts gen_interval st0]
      unfolding p_def by blast
    from gen_finish_outcome [OF m(3)]
    have "filter is_returned (trace (fst p)) = [Returned None] \<and>
       ((\<exists>a. filter (\<lambda>e. \<not> quiet e) (trace (fst p)) = [Set_article (Some a), Set_loading False]) \<or>
        (\<exists>m. filter (\<lambda>e. \<not> quiet e) (trace (fst p)) = [Set_error (Some m), Set_loading False]))"
      using m(1,2) t0
      by (auto simp: filter_loud_polling filter_returned_polling)
    then show ?thesis
      unfolding p_def st0_def .
  qed
  show ?thesis
  proof (cases r)
    case (Threw err)
    then show ?thesis
      by (simp add: requestArticle_rest_def gen_caught_def)
  next
    case (Responded env)
    show ?thesis
    proof (cases "env_success env")
      case False
      with Responded show ?thesis
        by (simp add: requestArticle_rest_def)
    next
      case True
      show ?thesis
      proof (cases "env_data env")
        case None
        with Responded True show ?thesis
          by (simp add: requestArticle_rest_def gen_caught_def)
      next
        case (Some responseData)
        show ?thesis
        proof (cases "deferred responseData")
          case None
          with Responded True Some handleArticleResponse_outcome [of responseData]
          show ?thesis
            by (auto simp: requestArticle_rest_def)
        next
          case (Some taskId)
          with Responded True \<open>env_data env = Some responseData\<close> polled [of taskId]
          show ?thesis
            by (simp add: requestArticle_rest_def)
        qed
      qed
    qed
  qed
qed

lemma handleFeedbackResponse_outcome:
  "\<exists>errs. snd (handleFeedbackResponse res) = map (\<lambda>m. Set_error (Some m)) errs \<and>
          (fst (handleFeedbackResponse res) = None) = (errs \<noteq> [])"
proof (cases "fst (handleFeedbackResponse res)")
  case None
  then have "snd (handleFeedbackResponse res) =
      map (\<lambda>m. Set_error (Some m)) [''Invalid article data received from server'']"
    by (auto simp: handleFeedbackResponse_def split: option.splits if_splits)
  with None show ?thesis
    by (intro exI [of _ "[''Invalid article data received from server'']"]) simp
next
  case (Some a)
  then have "snd (handleFeedbackResponse res) = map (\<lambda>m. Set_error (Some m)) []"
    by (auto simp: handleFeedbackResponse_def split: option.splits if_splits)
  with Some show ?thesis
    by (intro exI [of _ "[]"]) simp
qed

text \<open>
  What \<^verbatim>\<open>sendFeedback\<close> does after the submission is out: queries and timers, then the
  error messages it sets (none exactly when it returns an article), then
  \<^verbatim>\<open>setLoading(false)\<close>, and last the settling of its promise.
\<close>

lemma sendFeedback_rest_shape:
  "\<exists>mid errs v. sendFeedback_rest r srv =
       mid @ map (\<lambda>m. Set_error (Some m)) errs @ [Set_loading False, Returned v] \<and>
     list_all polling mid \<and> (v = None) = (errs \<noteq> [])"
proof -
  have caught: "\<exists>mid errs v. sendFeedback_caught err =
       mid @ map (\<lambda>m. Set_error (Some m)) errs @ [Set_loading False, Returned v] \<and>
     list_all polling mid \<and> (v = None) = (errs \<noteq> [])" for err
    by (intro exI [of _ "[]"] exI [of _ "[fb_error_message err]"] exI [of _ None])
       (simp add: sendFeedback_caught_def)
  show ?thesis
  proof (cases r)
    case (Threw err)
    with caught [of err] show ?thesis
      by (simp add: sendFeedback_rest_def)
  next
    case (Responded env)
    show ?thesis
    proof (cases "env_success env")
      case False
      with Responded show ?thesis
        by (intro exI [of _ "[]"]
            exI [of _ "[or_else (env_message env) ''Feedback application failed'']"]
            exI [of _ None])
           (simp add: sendFeedback_rest_def)
    next
      case True
      show ?thesis
      proof (cases "env_data env")
        case None
        with Responded True caught [of Type_error] show ?thesis
          by (simp add: sendFeedback_rest_def)
      next
        case (Some responseData)
        show ?thesis
        proof (cases "deferred responseData")
          case None
          obtain errs where "snd (handleFeedbackResponse responseData) =
                map (\<lambda>m. Set_error (Some m)) errs"
              "(fst (handleFeedbackResponse responseData) = None) = (errs \<noteq> [])"
            using handleFeedbackResponse_outcome [of responseData] by auto
          with Responded True Some None show ?thesis
            by (intro exI [of _ "[]"] exI [of _ errs]
                exI [of _ "fst (handleFeedbackResponse responseData)"])
               (simp add: sendFeedback_rest_def)
        next
          case (Some taskId)
          define p where "p = fb_poll srv taskId fb_maxAttempts fb_interval (poll_start taskId [])"
          obtain mid where m: "trace (fst p) =
                trace (poll_start taskId [] :: 'a fb_article run_state) @ mid @ fb_finish (snd p)"
              "list_all polling mid" "snd p \<noteq> Reschedule"
            using fb_poll_shape [of srv taskId fb_maxAttempts fb_interval "poll_start taskId []"]
            unfolding p_def by blast
          have t0: "trace (poll_start taskId [] :: 'a fb_article run_state) =
                [Call (Get_status taskId)]"
            by (simp add: poll_start_def poll_issue_def emit_def)
          have rest: "sendFeedback_rest r srv =
              (case p of
                 (st, Deliver res) \<Rightarrow>
                   trace st @ [Set_loading False, Returned (fst (handleFeedbackResponse res))]
               | (st, Fail msg) \<Rightarrow> trace st @ sendFeedback_caught (Error_msg msg)
               | (st, Rethrow err) \<Rightarrow> trace st @ sendFeedback_caught err
               | (st, Reschedule) \<Rightarrow> trace st)"
            using Responded True \<open>env_data env = Some responseData\<close> Some
            by (simp add: sendFeedback_rest_def p_def)
          obtain st ex where p_eq: "p = (st, ex)"
            by force
          show ?thesis
          proof (cases ex)
            case Reschedule
            with m(3) p_eq show ?thesis
              by simp
          next
            case (Deliver res)
            obtain errs where e: "snd (handleFeedbackResponse res) =
                  map (\<lambda>m. Set_error (Some m)) errs"
                "(fst (handleFeedbackResponse res) = None) = (errs \<noteq> [])"
              using handleFeedbackResponse_outcome [of res] by auto
            with rest p_eq Deliver m(1,2) t0 show ?thesis
              by (intro exI [of _ "Call (Get_status taskId) # mid"] exI [of _ errs]
                  exI [of _ "fst (handleFeedbackResponse res)"])
                 (simp add: polling_def)
          next
            case (Fail msg)
            with rest p_eq m(1,2) t0 show ?thesis
              by (intro exI [of _ "Call (Get_status taskId) # mid"]
                  exI [of _ "[msg, fb_error_message (Error_msg msg)]"] exI [of _ None])
                 (simp add: polling_def sendFeedback_caught_def)
          next
            case (Rethrow err)
            with rest p_eq m(1,2) t0 show ?thesis
              by (intro exI [of _ "Call (Get_status taskId) # mid"]
                  exI [of _ "[or_else
                      (case err_response_data err of None \<Rightarrow> None | Some d \<Rightarrow> ed_message d)
                      ''Failed to check task status'', fb_error_message err]"]
                  exI [of _ None])
                 (simp add: polling_def sendFeedback_caught_def)
          qed
        qed
      qed
    qed
  qed
qed

section \<open>When a submission settles, and what it delivers\<close>

lemma foldl_hook_step_errors:
  "foldl hook_step h (map (\<lambda>m. Set_error (Some m)) errs) =
     h\<lparr>hs_error := (if errs = [] then hs_error h else Some (last errs))\<rparr>"
  by (induction errs arbitrary: h) simp_all

lemma filter_returned_errors [simp]:
  "filter is_returned (map (\<lambda>m. Set_error (Some m)) errs) = []"
  by (induction errs) simp_all

lemma sendFeedback_settles:
  "settles_last (sendFeedback r srv articleId section feedbackText)
   \<and> length (filter is_returned (sendFeedback r srv articleId section feedbackText)) = 1
   \<and> \<not> hs_loading (hook_after (sendFeedback r srv articleId section feedbackText))
   \<and> (returned_article (sendFeedback r srv articleId section feedbackText) = None) =
       (hs_error (hook_after (sendFeedback r srv articleId section feedbackText)) \<noteq> None)"
proof -
  obtain mid errs v where
    s: "sendFeedback_rest r srv =
          mid @ map (\<lambda>m. Set_error (Some m)) errs @ [Set_loading False, Returned v]"
      and m: "list_all polling mid" and v: "(v = None) = (errs \<noteq> [])"
    using sendFeedback_rest_shape [of r srv] by blast
  have tr: "sendFeedback r srv articleId section feedbackText =
      sendFeedback_begin articleId section feedbackText @
      mid @ map (\<lambda>m. Set_error (Some m)) errs @ [Set_loading False, Returned v]"
    by (simp add: sendFeedback_def s)
  have ret: "filter is_returned (sendFeedback r srv articleId section feedbackText) = [Returned v]"
    by (simp add: tr sendFeedback_begin_def filter_returned_polling [OF m])
  have hook: "hook_after (sendFeedback r srv articleId section feedbackText) =
      \<lparr>hs_loading = False, hs_error = (if errs = [] then None else Some (last errs)),
       hs_article = None\<rparr>"
    by (simp add: tr hook_after_def sendFeedback_begin_def foldl_hook_step_polling [OF m]
        foldl_hook_step_errors)
  have "returned_article (sendFeedback r srv articleId section feedbackText) = v"
    by (cases v) (simp_all add: returned_article_def ret)
  then show ?thesis
    using v by (simp add: ret hook) (simp add: tr settles_last_def)
qed

lemma filter_loading_off_loud:
  "filter (\<lambda>e. e = Set_loading False) tr =
     filter (\<lambda>e. e = Set_loading False) (filter (\<lambda>e. \<not> quiet e) tr)"
  by (induction tr) auto

lemma requestArticle_delivers:
  "length (filter is_returned (requestArticle r srv requestData)) = 1
   \<and> length (filter (\<lambda>e. e = Set_loading False) (requestArticle r srv requestData)) = 1
   \<and> \<not> hs_loading (hook_after (requestArticle r srv requestData))
   \<and> (hs_article (hook_after (requestArticle r srv requestData)) = None) =
       (hs_error (hook_after (requestArticle r srv requestData)) \<noteq> None)"
proof -
  have ret: "filter is_returned (requestArticle_rest r srv) = [Returned None]"
    using requestArticle_rest_shape [of r srv] by simp
  have loud: "filter (\<lambda>e. \<not> quiet e) (requestArticle r srv requestData) =
      [Set_loading True, Set_error None, Set_article None] @
      filter (\<lambda>e. \<not> quiet e) (requestArticle_rest r srv)"
    by (simp add: requestArticle_def requestArticle_begin_def)
  from requestArticle_rest_shape [of r srv]
  consider a where "filter (\<lambda>e. \<not> quiet e) (requestArticle_rest r srv) =
        [Set_article (Some a), Set_loading False]"
    | m where "filter (\<lambda>e. \<not> quiet e) (requestArticle_rest r srv) =
        [Set_error (Some m), Set_loading False]"
    by blast
  then have "length (filter (\<lambda>e. e = Set_loading False) (requestArticle r srv requestData)) = 1
   \<and> \<not> hs_loading (hook_after (requestArticle r srv requestData))
   \<and> (hs_article (hook_after (requestArticle r srv requestData)) = None) =
       (hs_error (hook_after (requestArticle r srv requestData)) \<noteq> None)"
  proof cases
    case 1
    then show ?thesis
      by (subst filter_loading_off_loud, subst (1 2 3) hook_after_quiet)
         (simp add: loud hook_after_def)
  next
    case 2
    then show ?thesis
      by (subst filter_loading_off_loud, subst (1 2 3) hook_after_quiet)
         (simp add: loud hook_after_def)
  qed
  moreover have "length (filter is_returned (requestArticle r srv requestData)) = 1"
    by (simp add: requestArticle_def requestArticle_begin_def ret)
  ultimately show ?thesis
    by simp
qed

lemma requestArticle_settles_early:
  assumes "deferral r = Some taskId"
  shows "take 2 (requestArticle_rest r srv) = [Call (Get_status taskId), Returned None]
       \<and> last (requestArticle r srv requestData) = Set_loading False
       \<and> \<not> settles_last (requestArticle r srv requestData)"
proof -
  define st0 :: "'a gen_article run_state"
    where "st0 = emit [Returned None] (poll_start taskId [])"
  define p where "p = gen_poll srv taskId gen_maxAttempts gen_interval st0"
  have rest: "requestArticle_rest r srv = trace (fst p)"
    using assms
    by (auto simp: deferral_def requestArticle_rest_def p_def st0_def
        split: reply.splits option.splits if_splits)
  have t0: "trace st0 = [Call (Get_status taskId), Returned None]"
    by (simp add: st0_def poll_start_def poll_issue_def emit_def)
  obtain mid where m: "trace (fst p) = trace st0 @ mid @ gen_finish (snd p)"
      "list_all polling mid" "gen_ended (snd p)"
    using gen_poll_shape [of srv taskId gen_maxAttempts gen_interval st0]
    unfolding p_def by blast
  from gen_finish_outcome [OF m(3)]
  have fin: "gen_finish (snd p) \<noteq> [] \<and> last (gen_finish (snd p)) = Set_loading False"
    by auto
  have "take 2 (requestArticle_rest r srv) = [Call (Get_status taskId), Returned None]"
    by (simp add: rest m(1) t0)
  moreover have "last (requestArticle r srv requestData) = Set_loading False"
    using fin by (simp add: requestArticle_def rest m(1))
  ultimately show ?thesis
    by (simp add: settles_last_def)
qed

text \<open>
  Claim C1, as the code has it. \<^verbatim>\<open>sendFeedback\<close> settles exactly once and as the last
  event of the submission, so after the poll run when the reply deferred to a task; the
  loading flag is off by then, and it returns an article exactly when no error is set.
  \<^verbatim>\<open>requestArticle\<close> settles exactly once too, but with no value and without waiting for
  the poll run: \<^verbatim>\<open>pollTaskStatus\<close> does not return the promise of its run, so on a
  deferring reply \<^verbatim>\<open>requestArticle\<close> settles as soon as the first status query is out.
  Its one outcome reaches the caller through the state of the hook: the loading flag is
  switched off exactly once, at the end, and by then exactly one of article and error is
  set.
\<close>

theorem submission_settles_and_delivers_once:
  "settles_last (sendFeedback r srv articleId section feedbackText)
   \<and> length (filter is_returned (sendFeedback r srv articleId section feedbackText)) = 1
   \<and> \<not> hs_loading (hook_after (sendFeedback r srv articleId section feedbackText))
   \<and> (returned_article (sendFeedback r srv articleId section feedbackText) = None) =
       (hs_error (hook_after (sendFeedback r srv articleId section feedbackText)) \<noteq> None)
   \<and> length (filter is_returned (requestArticle r' srv' requestData)) = 1
   \<and> length (filter (\<lambda>e. e = Set_loading False) (requestArticle r' srv' requestData)) = 1
   \<and> \<not> hs_loading (hook_after (requestArticle r' srv' requestData))
   \<and> (hs_article (hook_after (requestArticle r' srv' requestData)) = None) =
       (hs_error (hook_after (requestArticle r' srv' requestData)) \<noteq> None)
   \<and> (deferral r' = Some taskId \<longrightarrow>
        take 2 (requestArticle_rest r' srv') = [Call (Get_status taskId), Returned None]
        \<and> last (requestArticle r' srv' requestData) = Set_loading False
        \<and> \<not> settles_last (requestArticle r' srv' requestData))"
  using sendFeedback_settles [of r srv articleId "section" feedbackText]
    requestArticle_delivers [of r' srv' requestData]
    requestArticle_settles_early [of r' taskId srv' requestData]
  by simp

lemmas submit_eval =
  requestArticle_def requestArticle_begin_def requestArticle_rest_def gen_caught_def
  sendFeedback_def sendFeedback_begin_def sendFeedback_rest_def sendFeedback_caught_def
  deferred_def deferred_reply_def sample_request_def sample_result_def completed_reply_def
  gen_payload_of_def fb_payload_of_def sectionMapping_def handleArticleResponse_def
  handleFeedbackResponse_def truthy_def or_else_def gen_maxAttempts_def gen_interval_def
  fb_maxAttempts_def fb_interval_def

text \<open>
  Scenario A of the specification, for both hooks: the submission is deferred to task
  t1, two status replies say processing and the third is a finished task.
\<close>

theorem submission_settles_and_delivers_once_witness:
  "deferral (deferred_reply ''t1'') = Some ''t1''
   \<and> take 2 (requestArticle_rest (deferred_reply ''t1'')
        (replies [status_reply ''processing'', status_reply ''processing'']
           (completed_reply (sample_result True None)))) =
       [Call (Get_status ''t1''), Returned None]
   \<and> \<not> settles_last (requestArticle (deferred_reply ''t1'')
        (replies [status_reply ''processing'', status_reply ''processing'']
           (completed_reply (sample_result True None))) sample_request)
   \<and> settles_last (sendFeedback (deferred_reply ''t1'')
        (replies [status_reply ''processing'', status_reply ''processing'']
           (completed_reply (sample_result True None))) (Some ''a1'') ''headline'' (ascii ''Shorter title''))
   \<and> returned_article (sendFeedback (deferred_reply ''t1'')
        (replies [status_reply ''processing'', status_reply ''processing'']
           (completed_reply (sample_result True None))) (Some ''a1'') ''headline'' (ascii ''Shorter title'')) =
       Some (From_article_data () (Some ''a1'') True)"
  using submission_settles_and_delivers_once
    [of "deferred_reply ''t1''"
        "replies [status_reply ''processing'', status_reply ''processing'']
           (completed_reply (sample_result True None))"
        "Some ''a1''" "''headline''" "ascii ''Shorter title''"
        "deferred_reply ''t1''"
        "replies [status_reply ''processing'', status_reply ''processing'']
           (completed_reply (sample_result True None))"
        sample_request "''t1''"]
  by (simp add: deferral_def returned_article_def run_eval submit_eval)

text \<open>
  The claim as the specification states it fails for generation. In scenario A the
  promise of \<^verbatim>\<open>requestArticle\<close> settles right after the first status query is issued;
  the two timers, the other two queries and the delivery of the article all come later.
\<close>

theorem generation_settles_before_outcome_counterexample:
  "requestArticle (deferred_reply ''t1'')
      (replies [status_reply ''processing'', status_reply ''processing'']
         (completed_reply (sample_result True None))) sample_request =
     [Set_loading True, Set_error None, Set_article None,
      Call (Post_generate \<lparr>gp_input_type = ''url'', gp_input_value = ascii ''https://example.org/a'',
        gp_instruction = [], gp_force_refresh = False, gp_async = True\<rparr>),
      Call (Get_status ''t1''), Returned None,
      Timer 3000, Call (Get_status ''t1''), Timer 3000, Call (Get_status ''t1''),
      Set_article (Some \<lparr>ga_data = (), ga_article_id = Some ''a1'', ga_request_id = None,
        ga_validation = None, ga_generation_time = None, ga_from_cache = None\<rparr>),
      Set_loading False]
   \<and> \<not> settles_last (requestArticle (deferred_reply ''t1'')
        (replies [status_reply ''processing'', status_reply ''processing'']
           (completed_reply (sample_result True None))) sample_request)"
  by (simp add: settles_last_def run_eval submit_eval)

section \<open>The three pollers compared\<close>

declare alt_cycles.simps [simp del]

lemma alt_cycles_unfold:
  "alt_on_reply (srv (answered st)) maxAttempts interval st = (st', ex) \<Longrightarrow>
     alt_cycles srv taskId maxAttempts interval st =
       (st', ex) #
       (if ex = Some Reschedule
        then alt_cycles srv taskId maxAttempts interval (poll_issue taskId st') else [])"
  by (subst alt_cycles.simps) simp

lemma same_end_refl [simp]: "same_end e e"
  by (cases e) simp_all

lemma same_end_Reschedule [simp]:
  "same_end Reschedule e = (e = Reschedule)" "same_end e Reschedule = (e = Reschedule)"
  by (cases e; auto)+

lemma answered_poll_issue [simp]: "answered (poll_issue taskId st) = answered st"
  by (simp add: poll_issue_def emit_def)

lemma gen_fb_step:
  assumes "plain r" and "attempts sf = attempts sg"
    and "gen_on_reply r maxAttempts interval sg = (sg', eg)"
    and "fb_on_reply r maxAttempts interval sf = (sf', ef)"
  shows "attempts sf' = attempts sg' \<and> same_end eg ef \<and>
         answered sg' = Suc (answered sg) \<and> answered sf' = Suc (answered sf)"
  using assms
  by (auto simp: plain_def gen_on_reply_def fb_on_reply_def gen_fail_def fb_fail_def
      gen_retry_def received_def emit_def Let_def timeout_msgs_def
      split: reply.splits option.splits if_splits)

lemma gen_alt_step:
  assumes "plain r" and "attempts sa = attempts sg"
    and "gen_on_reply r maxAttempts interval sg = (sg', eg)"
    and "alt_on_reply r maxAttempts interval sa = (sa', ea)"
  shows "attempts sa' = attempts sg' \<and> (\<exists>e. ea = Some e \<and> same_end eg e) \<and>
         answered sg' = Suc (answered sg) \<and> answered sa' = Suc (answered sa)"
  using assms
  by (auto simp: plain_def gen_on_reply_def alt_on_reply_def gen_fail_def alt_fail_def
      gen_retry_def received_def emit_def Let_def timeout_msgs_def
      split: reply.splits option.splits if_splits)

lemma gen_fb_agree:
  assumes "\<forall>k. plain (srv k)"
  shows "attempts sf = attempts sg \<Longrightarrow> answered sf = answered sg \<Longrightarrow>
     list_all2 (\<lambda>cg cf. attempts (fst cg) = attempts (fst cf) \<and> same_end (snd cg) (snd cf))
       (gen_cycles srv taskId maxAttempts interval sg)
       (fb_cycles srv taskId maxAttempts interval sf)"
proof (induction sg arbitrary: sf rule: gen_run_induct [of srv maxAttempts interval _ taskId])
  case (stop sg sg' eg)
  obtain sf' ef where f: "fb_on_reply (srv (answered sf)) maxAttempts interval sf = (sf', ef)"
    by force
  from assms have pl: "plain (srv (answered sg))"
    by simp
  have f2: "fb_on_reply (srv (answered sg)) maxAttempts interval sf = (sf', ef)"
    using f stop(4) by simp
  from gen_fb_step [OF pl stop(3) stop(1) f2]
  have s: "attempts sf' = attempts sg'" "same_end eg ef"
    by simp_all
  with stop(2) have ne: "ef \<noteq> Reschedule"
    by auto
  have "gen_cycles srv taskId maxAttempts interval sg = [(sg', eg)]"
    by (rule gen_cycles_stop [where srv = srv and st = sg and taskId = taskId, OF stop(1) stop(2)])
  moreover have "fb_cycles srv taskId maxAttempts interval sf = [(sf', ef)]"
    by (rule fb_cycles_stop [where srv = srv and st = sf and taskId = taskId, OF f ne])
  ultimately show ?case
    using s by simp
next
  case (again sg sg')
  obtain sf' ef where f: "fb_on_reply (srv (answered sf)) maxAttempts interval sf = (sf', ef)"
    by force
  from assms have pl: "plain (srv (answered sg))"
    by simp
  have f2: "fb_on_reply (srv (answered sg)) maxAttempts interval sf = (sf', ef)"
    using f again(4) by simp
  from gen_fb_step [OF pl again(3) again(1) f2]
  have s: "attempts sf' = attempts sg'" "ef = Reschedule"
      "answered sg' = Suc (answered sg)" "answered sf' = Suc (answered sf)"
    by simp_all
  have f': "fb_on_reply (srv (answered sf)) maxAttempts interval sf = (sf', Reschedule)"
    using f s(2) by simp
  have ih: "list_all2 (\<lambda>cg cf. attempts (fst cg) = attempts (fst cf) \<and> same_end (snd cg) (snd cf))
       (gen_cycles srv taskId maxAttempts interval (poll_issue taskId sg'))
       (fb_cycles srv taskId maxAttempts interval (poll_issue taskId sf'))"
  proof (rule again(2))
    show "attempts (poll_issue taskId sf') = attempts (poll_issue taskId sg')"
      using s(1) by simp
    show "answered (poll_issue taskId sf') = answered (poll_issue taskId sg')"
      using s(3,4) again(4) by simp
  qed
  have "gen_cycles srv taskId maxAttempts interval sg =
      (sg', Reschedule) # gen_cycles srv taskId maxAttempts interval (poll_issue taskId sg')"
    by (rule gen_cycles_again [where srv = srv and st = sg and taskId = taskId, OF again(1)])
  moreover have "fb_cycles srv taskId maxAttempts interval sf =
      (sf', Reschedule) # fb_cycles srv taskId maxAttempts interval (poll_issue taskId sf')"
    by (rule fb_cycles_again [where srv = srv and st = sf and taskId = taskId, OF f'])
  ultimately show ?case
    using ih s(1) by simp
qed

lemma gen_alt_agree:
  assumes "\<forall>k. plain (srv k)"
  shows "attempts sa = attempts sg \<Longrightarrow> answered sa = answered sg \<Longrightarrow>
     list_all2 (\<lambda>cg ca. attempts (fst cg) = attempts (fst ca) \<and>
         (case snd ca of None \<Rightarrow> False | Some e \<Rightarrow> same_end (snd cg) e))
       (gen_cycles srv taskId maxAttempts interval sg)
       (alt_cycles srv taskId maxAttempts interval sa)"
proof (induction sg arbitrary: sa rule: gen_run_induct [of srv maxAttempts interval _ taskId])
  case (stop sg sg' eg)
  obtain sa' ea where f: "alt_on_reply (srv (answered sa)) maxAttempts interval sa = (sa', ea)"
    by force
  from assms have pl: "plain (srv (answered sg))"
    by simp
  have f2: "alt_on_reply (srv (answered sg)) maxAttempts interval sa = (sa', ea)"
    using f stop(4) by simp
  from gen_alt_step [OF pl stop(3) stop(1) f2]
  obtain e where s: "attempts sa' = attempts sg'" "ea = Some e" "same_end eg e"
    by (elim conjE exE)
  with stop(2) have ne: "e \<noteq> Reschedule"
    by auto
  have "gen_cycles srv taskId maxAttempts interval sg = [(sg', eg)]"
    by (rule gen_cycles_stop [where srv = srv and st = sg and taskId = taskId, OF stop(1) stop(2)])
  moreover have "alt_cycles srv taskId maxAttempts interval sa = [(sa', ea)]"
    using alt_cycles_unfold [where srv = srv and st = sa and taskId = taskId, OF f] s(2) ne
    by simp
  ultimately show ?case
    using s by simp
next
  case (again sg sg')
  obtain sa' ea where f: "alt_on_reply (srv (answered sa)) maxAttempts interval sa = (sa', ea)"
    by force
  from assms have pl: "plain (srv (answered sg))"
    by simp
  have f2: "alt_on_reply (srv (answered sg)) maxAttempts interval sa = (sa', ea)"
    using f again(4) by simp
  from gen_alt_step [OF pl again(3) again(1) f2]
  have s: "attempts sa' = attempts sg'" "ea = Some Reschedule"
      "answered sg' = Suc (answered sg)" "answered sa' = Suc (answered sa)"
    by (elim conjE exE, simp)+
  have ih: "list_all2 (\<lambda>cg ca. attempts (fst cg) = attempts (fst ca) \<and>
         (case snd ca of None \<Rightarrow> False | Some e \<Rightarrow> same_end (snd cg) e))
       (gen_cycles srv taskId maxAttempts interval (poll_issue taskId sg'))
       (alt_cycles srv taskId maxAttempts interval (poll_issue taskId sa'))"
  proof (rule again(2))
    show "attempts (poll_issue taskId sa') = attempts (poll_issue taskId sg')"
      using s(1) by simp
    show "answered (poll_issue taskId sa') = answered (poll_issue taskId sg')"
      using s(3,4) again(4) by simp
  qed
  have "gen_cycles srv taskId maxAttempts interval sg =
      (sg', Reschedule) # gen_cycles srv taskId maxAttempts interval (poll_issue taskId sg')"
    by (rule gen_cycles_again [where srv = srv and st = sg and taskId = taskId, OF again(1)])
  moreover have "alt_cycles srv taskId maxAttempts interval sa =
      (sa', Some Reschedule) # alt_cycles srv taskId maxAttempts interval (poll_issue taskId sa')"
    using alt_cycles_unfold [where srv = srv and st = sa and taskId = taskId, OF f] s(2)
    by simp
  ultimately show ?case
    using ih s(1) by simp
qed

lemma plain_replies: "list_all plain xs \<Longrightarrow> plain d \<Longrightarrow> plain (replies xs d k)"
  by (simp add: replies_def list_all_length)

lemma alt_cycles_not_Nil [simp]: "alt_cycles srv taskId maxAttempts interval st \<noteq> []"
  by (subst alt_cycles.simps) (simp split: prod.splits)

text \<open>
  Claim C8, as the code has it. The pollers are separate functions, and they are the
  same state machine only on the replies all of them have a branch for. On a sequence of
  such replies, run from the start with the same task and the same configuration, the
  generation poller and the feedback poller go through the same number of cycles, with
  the same attempt counter and the same kind of exit in each (at exhaustion each fails
  with its own time-out message), and issue the same number of status queries; the
  second copy of the generation poller agrees with them too.
\<close>

theorem pollers_agree_on_plain_replies:
  assumes "\<forall>k. plain (srv k)"
  shows "list_all2 (\<lambda>cg cf. attempts (fst cg) = attempts (fst cf) \<and> same_end (snd cg) (snd cf))
           (gen_cycles srv taskId maxAttempts interval (poll_start taskId []))
           (fb_cycles srv taskId maxAttempts interval (poll_start taskId []))
       \<and> queries (trace (fst (gen_poll srv taskId maxAttempts interval (poll_start taskId [])))) =
           queries (trace (fst (fb_poll srv taskId maxAttempts interval (poll_start taskId []))))
       \<and> same_end (snd (gen_poll srv taskId maxAttempts interval (poll_start taskId [])))
           (snd (fb_poll srv taskId maxAttempts interval (poll_start taskId [])))
       \<and> list_all2 (\<lambda>cg ca. attempts (fst cg) = attempts (fst ca) \<and>
             (case snd ca of None \<Rightarrow> False | Some e \<Rightarrow> same_end (snd cg) e))
           (gen_cycles srv taskId maxAttempts interval (poll_start taskId []))
           (alt_cycles srv taskId maxAttempts interval (poll_start taskId []))"
proof -
  have gf: "list_all2 (\<lambda>cg cf. attempts (fst cg) = attempts (fst cf) \<and> same_end (snd cg) (snd cf))
           (gen_cycles srv taskId maxAttempts interval (poll_start taskId []))
           (fb_cycles srv taskId maxAttempts interval (poll_start taskId []))"
    by (rule gen_fb_agree [OF assms]) (simp_all add: poll_start_def)
  have ga: "list_all2 (\<lambda>cg ca. attempts (fst cg) = attempts (fst ca) \<and>
             (case snd ca of None \<Rightarrow> False | Some e \<Rightarrow> same_end (snd cg) e))
           (gen_cycles srv taskId maxAttempts interval (poll_start taskId []))
           (alt_cycles srv taskId maxAttempts interval (poll_start taskId []))"
    by (rule gen_alt_agree [OF assms]) (simp_all add: poll_start_def)
  from gf have len: "length (gen_cycles srv taskId maxAttempts interval (poll_start taskId [])) =
      length (fb_cycles srv taskId maxAttempts interval (poll_start taskId []))"
    by (rule list_all2_lengthD)
  have last: "same_end (snd (last (gen_cycles srv taskId maxAttempts interval (poll_start taskId []))))
      (snd (last (fb_cycles srv taskId maxAttempts interval (poll_start taskId []))))"
    using gf len
    by (simp add: last_conv_nth list_all2_conv_all_nth)
  have q: "queries (trace (fst (gen_poll srv taskId maxAttempts interval (poll_start taskId [])))) =
      queries (trace (fst (fb_poll srv taskId maxAttempts interval (poll_start taskId []))))"
    by (simp only: gen_poll_queries fb_poll_queries len)
  show ?thesis
    using gf ga last q by (simp add: gen_poll_def fb_poll_def)
qed

text \<open>
  Scenario A of the specification under one configuration for both pollers, and a task
  that stays at work until the budget of 2 attempts is spent.
\<close>

theorem pollers_agree_on_plain_replies_witness:
  "map snd (gen_cycles (replies [status_reply ''processing'', status_reply ''processing'']
        (completed_reply (sample_result True None))) ''t1'' 15 2000 (poll_start ''t1'' [])) =
     [Reschedule, Reschedule, Deliver (sample_result True None)]
   \<and> map snd (fb_cycles (replies [status_reply ''processing'', status_reply ''processing'']
        (completed_reply (sample_result True None))) ''t1'' 15 2000 (poll_start ''t1'' [])) =
     [Reschedule, Reschedule, Deliver (sample_result True None)]
   \<and> queries (trace (fst (gen_poll (replies [status_reply ''processing'', status_reply ''processing'']
        (completed_reply (sample_result True None))) ''t1'' 15 2000 (poll_start ''t1'' [])))) = 3
   \<and> queries (trace (fst (fb_poll (replies [status_reply ''processing'', status_reply ''processing'']
        (completed_reply (sample_result True None))) ''t1'' 15 2000 (poll_start ''t1'' [])))) = 3
   \<and> snd (gen_poll (replies [] (status_reply ''processing'' :: unit task_data reply))
        ''t1'' 2 2000 (poll_start ''t1'' [])) = Fail gen_timeout_msg
   \<and> snd (fb_poll (replies [] (status_reply ''processing'' :: unit task_data reply))
        ''t1'' 2 2000 (poll_start ''t1'' [])) = Fail fb_timeout_msg
   \<and> same_end
        (snd (gen_poll (replies [] (status_reply ''processing'' :: unit task_data reply))
           ''t1'' 2 2000 (poll_start ''t1'' [])))
        (snd (fb_poll (replies [] (status_reply ''processing'' :: unit task_data reply))
           ''t1'' 2 2000 (poll_start ''t1'' [])))"
proof -
  have p: "plain (status_reply ''processing'' :: unit task_data reply)"
    by (simp add: plain_def status_reply_def)
  have c: "plain (completed_reply (sample_result True None))"
    by (simp add: plain_def completed_reply_def)
  have a: "\<forall>k. plain (replies [status_reply ''processing'', status_reply ''processing'']
        (completed_reply (sample_result True None)) k)"
    using p c by (intro allI plain_replies) simp_all
  have b: "\<forall>k. plain (replies [] (status_reply ''processing'' :: unit task_data reply) k)"
    using p by (intro allI plain_replies) simp_all
  from pollers_agree_on_plain_replies [OF a, of "''t1''" 15 2000]
    pollers_agree_on_plain_replies [OF b, of "''t1''" 2 2000]
  show ?thesis
    by (simp add: run_eval completed_reply_def handleArticleResponse_def
        handleFeedbackResponse_def sample_result_def truthy_def)
qed

text \<open>
  The claim as the specification states it fails. Under the same configuration and the
  same replies, a first query that throws followed by a finished task, the generation
  poller makes two queries and hands the result on; the feedback poller makes one query
  and rejects with the error.
\<close>

theorem pollers_differ_counterexample:
  "queries (trace (fst (gen_poll
      (replies [Threw network_error] (completed_reply (sample_result True None)))
      ''t1'' 15 2000 (poll_start ''t1'' [])))) = 2
   \<and> queries (trace (fst (fb_poll
      (replies [Threw network_error] (completed_reply (sample_result True None)))
      ''t1'' 15 2000 (poll_start ''t1'' [])))) = 1
   \<and> snd (gen_poll (replies [Threw network_error] (completed_reply (sample_result True None)))
      ''t1'' 15 2000 (poll_start ''t1'' [])) = Deliver (sample_result True None)
   \<and> snd (fb_poll (replies [Threw network_error] (completed_reply (sample_result True None)))
      ''t1'' 15 2000 (poll_start ''t1'' [])) = Rethrow network_error
   \<and> \<not> same_end
        (snd (gen_poll (replies [Threw network_error] (completed_reply (sample_result True None)))
           ''t1'' 15 2000 (poll_start ''t1'' [])))
        (snd (fb_poll (replies [Threw network_error] (completed_reply (sample_result True None)))
           ''t1'' 15 2000 (poll_start ''t1'' [])))"
  by (simp add: run_eval completed_reply_def handleArticleResponse_def
      handleFeedbackResponse_def sample_result_def truthy_def network_error_def or_else_def)

end
